theory Spec2Isabelle
  imports Complex_Main
begin

section \<open>JavaScript numbers\<close>

text \<open>
  The simulation in \<^verbatim>\<open>src/app/page.tsx\<close> computes with JavaScript numbers and guards
  itself with \<^verbatim>\<open>isNaN\<close>.  A number is modelled as a finite real or one of the three
  special values.  The special values follow the IEEE rules of JavaScript
  (\<open>\<infinity> - \<infinity>\<close>, \<open>0 * \<infinity>\<close>, \<open>0 / 0\<close> are NaN, every comparison with NaN is false).
  Arithmetic on finite values is exact: the rounding and the overflow of a double
  precision operation and the sign of zero are not modelled.  Two roundings are
  modelled, because the program makes them visible: the narrowing to single precision
  of every store into a \<^verbatim>\<open>Float32Array\<close>, and the rounding of the product under
  \<^verbatim>\<open>Math.floor\<close> in the choice of a random slot.
\<close>

datatype jsnum = Fin real | PInf | NInf | NaN

fun isNaN :: "jsnum \<Rightarrow> bool" where
  "isNaN NaN = True"
| "isNaN _ = False"

fun isFinite :: "jsnum \<Rightarrow> bool" where
  "isFinite (Fin _) = True"
| "isFinite _ = False"

fun jneg :: "jsnum \<Rightarrow> jsnum" where
  "jneg (Fin a) = Fin (- a)"
| "jneg PInf = NInf"
| "jneg NInf = PInf"
| "jneg NaN = NaN"

fun jadd :: "jsnum \<Rightarrow> jsnum \<Rightarrow> jsnum" where
  "jadd NaN _ = NaN"
| "jadd _ NaN = NaN"
| "jadd (Fin a) (Fin b) = Fin (a + b)"
| "jadd PInf NInf = NaN"
| "jadd NInf PInf = NaN"
| "jadd PInf _ = PInf"
| "jadd _ PInf = PInf"
| "jadd NInf _ = NInf"
| "jadd _ NInf = NInf"

definition jsub :: "jsnum \<Rightarrow> jsnum \<Rightarrow> jsnum" where
  "jsub a b = jadd a (jneg b)"

text \<open>The product of an infinity and a finite number takes the sign of the product;
  with zero it is NaN.\<close>

definition inf_times :: "bool \<Rightarrow> real \<Rightarrow> jsnum" where
  "inf_times positive b =
     (if b = 0 then NaN else if (0 < b) = positive then PInf else NInf)"

fun jmul :: "jsnum \<Rightarrow> jsnum \<Rightarrow> jsnum" where
  "jmul NaN _ = NaN"
| "jmul _ NaN = NaN"
| "jmul (Fin a) (Fin b) = Fin (a * b)"
| "jmul PInf (Fin b) = inf_times True b"
| "jmul NInf (Fin b) = inf_times False b"
| "jmul (Fin a) PInf = inf_times True a"
| "jmul (Fin a) NInf = inf_times False a"
| "jmul PInf PInf = PInf"
| "jmul NInf NInf = PInf"
| "jmul PInf NInf = NInf"
| "jmul NInf PInf = NInf"

text \<open>Division.  A zero divisor is taken as \<open>+0\<close> (every divisor of the program is a
  square root, a sum of squares or a literal).\<close>

fun jdiv :: "jsnum \<Rightarrow> jsnum \<Rightarrow> jsnum" where
  "jdiv NaN _ = NaN"
| "jdiv _ NaN = NaN"
| "jdiv (Fin a) (Fin b) =
     (if b = 0 then (if a = 0 then NaN else if 0 < a then PInf else NInf)
      else Fin (a / b))"
| "jdiv (Fin a) PInf = Fin 0"
| "jdiv (Fin a) NInf = Fin 0"
| "jdiv PInf (Fin b) = (if 0 \<le> b then PInf else NInf)"
| "jdiv NInf (Fin b) = (if 0 \<le> b then NInf else PInf)"
| "jdiv PInf PInf = NaN"
| "jdiv PInf NInf = NaN"
| "jdiv NInf PInf = NaN"
| "jdiv NInf NInf = NaN"

fun jsqrt :: "jsnum \<Rightarrow> jsnum" where
  "jsqrt (Fin a) = (if a < 0 then NaN else Fin (sqrt a))"
| "jsqrt PInf = PInf"
| "jsqrt NInf = NaN"
| "jsqrt NaN = NaN"

fun jexp :: "jsnum \<Rightarrow> jsnum" where
  "jexp (Fin a) = Fin (exp a)"
| "jexp PInf = PInf"
| "jexp NInf = Fin 0"
| "jexp NaN = NaN"

fun jsin :: "jsnum \<Rightarrow> jsnum" where
  "jsin (Fin a) = Fin (sin a)"
| "jsin _ = NaN"

fun jcos :: "jsnum \<Rightarrow> jsnum" where
  "jcos (Fin a) = Fin (cos a)"
| "jcos _ = NaN"

text \<open>\<^verbatim>\<open>a < b\<close> and \<^verbatim>\<open>a > b\<close>: false as soon as one side is NaN.\<close>

fun jlt :: "jsnum \<Rightarrow> jsnum \<Rightarrow> bool" where
  "jlt NaN _ = False"
| "jlt _ NaN = False"
| "jlt (Fin a) (Fin b) = (a < b)"
| "jlt _ NInf = False"
| "jlt PInf _ = False"
| "jlt NInf _ = True"
| "jlt _ PInf = True"

definition jgt :: "jsnum \<Rightarrow> jsnum \<Rightarrow> bool" where
  "jgt a b = jlt b a"

text \<open>\<^verbatim>\<open>Math.min\<close> and \<^verbatim>\<open>Math.max\<close> return NaN when an argument is NaN.\<close>

definition Math_min :: "jsnum \<Rightarrow> jsnum \<Rightarrow> jsnum" where
  "Math_min a b = (if isNaN a \<or> isNaN b then NaN else if jlt b a then b else a)"

definition Math_max :: "jsnum \<Rightarrow> jsnum \<Rightarrow> jsnum" where
  "Math_max a b = (if isNaN a \<or> isNaN b then NaN else if jlt a b then b else a)"

text \<open>\<^verbatim>\<open>n || 1\<close>: zero and NaN are falsy.\<close>

definition or_one :: "jsnum \<Rightarrow> jsnum" where
  "or_one n = (if n = Fin 0 \<or> isNaN n then Fin 1 else n)"

section \<open>Rounding to a binary format\<close>

text \<open>
  Round to nearest, ties to even, in a binary format with \<open>prec\<close> significant bits and
  least exponent \<open>emin\<close>: the exponent of \<open>x\<close> is \<open>e = max \<lfloor>log\<^sub>2 |x|\<rfloor> emin\<close>, the
  numbers of the format near \<open>x\<close> are the integer multiples of \<open>2\<^bsup>e - (prec - 1)\<^esup>\<close>, and
  \<open>x\<close> goes to the nearest of them, to the even multiple when it is halfway.
\<close>

definition round_half_even :: "real \<Rightarrow> int" where
  "round_half_even z =
     (let f = \<lfloor>z\<rfloor>; d = z - of_int f
      in if d < 1 / 2 then f else if 1 / 2 < d then f + 1 else if even f then f else f + 1)"

definition round_binary :: "int \<Rightarrow> int \<Rightarrow> real \<Rightarrow> real" where
  "round_binary prec emin x =
     (if x = 0 then 0
      else let e = max \<lfloor>log 2 \<bar>x\<bar>\<rfloor> emin;
               ulp = 2 powr of_int (e - (prec - 1))
           in ulp * of_int (round_half_even (x / ulp)))"

text \<open>Single precision (24 bits, least exponent \<open>-126\<close>): a rounded magnitude of
  \<open>2\<^sup>1\<^sup>2\<^sup>8\<close> or more is an infinity.  \<^verbatim>\<open>Math.fround\<close> is what a store into a
  \<^verbatim>\<open>Float32Array\<close> does to a number.\<close>

definition float32 :: "real \<Rightarrow> jsnum" where
  "float32 x =
     (let y = round_binary 24 (- 126) x
      in if 2 powr 128 \<le> \<bar>y\<bar> then (if 0 < x then PInf else NInf) else Fin y)"

fun Math_fround :: "jsnum \<Rightarrow> jsnum" where
  "Math_fround (Fin x) = float32 x"
| "Math_fround PInf = PInf"
| "Math_fround NInf = NInf"
| "Math_fround NaN = NaN"

text \<open>Double precision (53 bits, least exponent \<open>-1022\<close>) of a product that cannot
  overflow.\<close>

definition float64 :: "real \<Rightarrow> real" where
  "float64 x = round_binary 53 (- 1022) x"

section \<open>three.js vectors\<close>

text \<open>
  \<^verbatim>\<open>THREE.Vector3\<close> belongs to the three.js library, which the program imports.  Its
  methods are modelled by what the library computes: \<^verbatim>\<open>length\<close> is
  \<^verbatim>\<open>Math.sqrt(x*x + y*y + z*z)\<close>, \<^verbatim>\<open>divideScalar(s)\<close> is \<^verbatim>\<open>multiplyScalar(1/s)\<close>,
  \<^verbatim>\<open>normalize()\<close> is \<^verbatim>\<open>divideScalar(length() || 1)\<close>, and \<^verbatim>\<open>applyAxisAngle\<close> rotates
  the vector about a unit axis by an angle (right-handed; written here with
  Rodrigues' formula \<open>v cos a + (k \<times> v) sin a + k (k \<cdot> v) (1 - cos a)\<close>).
\<close>

datatype Vector3 = Vector3 (vx: jsnum) (vy: jsnum) (vz: jsnum)

definition vlength :: "Vector3 \<Rightarrow> jsnum" where
  "vlength v =
     jsqrt (jadd (jadd (jmul (vx v) (vx v)) (jmul (vy v) (vy v))) (jmul (vz v) (vz v)))"

definition multiplyScalar :: "Vector3 \<Rightarrow> jsnum \<Rightarrow> Vector3" where
  "multiplyScalar v s = Vector3 (jmul (vx v) s) (jmul (vy v) s) (jmul (vz v) s)"

definition divideScalar :: "Vector3 \<Rightarrow> jsnum \<Rightarrow> Vector3" where
  "divideScalar v s = multiplyScalar v (jdiv (Fin 1) s)"

definition normalize :: "Vector3 \<Rightarrow> Vector3" where
  "normalize v = divideScalar v (or_one (vlength v))"

definition vadd :: "Vector3 \<Rightarrow> Vector3 \<Rightarrow> Vector3" where
  "vadd a b = Vector3 (jadd (vx a) (vx b)) (jadd (vy a) (vy b)) (jadd (vz a) (vz b))"

definition vsub :: "Vector3 \<Rightarrow> Vector3 \<Rightarrow> Vector3" where
  "vsub a b = Vector3 (jsub (vx a) (vx b)) (jsub (vy a) (vy b)) (jsub (vz a) (vz b))"


definition dot :: "Vector3 \<Rightarrow> Vector3 \<Rightarrow> jsnum" where
  "dot a b = jadd (jadd (jmul (vx a) (vx b)) (jmul (vy a) (vy b))) (jmul (vz a) (vz b))"

definition cross :: "Vector3 \<Rightarrow> Vector3 \<Rightarrow> Vector3" where
  "cross a b =
     Vector3 (jsub (jmul (vy a) (vz b)) (jmul (vz a) (vy b)))
             (jsub (jmul (vz a) (vx b)) (jmul (vx a) (vz b)))
             (jsub (jmul (vx a) (vy b)) (jmul (vy a) (vx b)))"

definition applyAxisAngle :: "Vector3 \<Rightarrow> Vector3 \<Rightarrow> jsnum \<Rightarrow> Vector3" where
  "applyAxisAngle v k a =
     vadd (vadd (multiplyScalar v (jcos a)) (multiplyScalar (cross k v) (jsin a)))
          (multiplyScalar k (jmul (dot k v) (jsub (Fin 1) (jcos a))))"

definition finiteV :: "Vector3 \<Rightarrow> bool" where
  "finiteV v \<longleftrightarrow> isFinite (vx v) \<and> isFinite (vy v) \<and> isFinite (vz v)"

definition zeroV :: Vector3 where
  "zeroV = Vector3 (Fin 0) (Fin 0) (Fin 0)"

definition froundV :: "Vector3 \<Rightarrow> Vector3" where
  "froundV v = Vector3 (Math_fround (vx v)) (Math_fround (vy v)) (Math_fround (vz v))"

section \<open>Constants of the simulation\<close>

definition MAX_PARTICLES :: nat where "MAX_PARTICLES = 1000"
definition MAGNETIC_TILT :: real where "MAGNETIC_TILT = pi / 10"
definition JUPITER_ROTATION_SPEED :: real where "JUPITER_ROTATION_SPEED = 0.002"
definition MAGNETIC_FIELD_STRENGTH :: real where "MAGNETIC_FIELD_STRENGTH = 0.2"
definition TORUS_RADIUS :: real where "TORUS_RADIUS = 10"
definition MAX_DISTANCE :: real where "MAX_DISTANCE = 30"
definition MIN_DISTANCE :: real where "MIN_DISTANCE = 3"
definition ERUPTION_DURATION :: int where "ERUPTION_DURATION = 100"
definition ERUPTION_COOLDOWN :: int where "ERUPTION_COOLDOWN = 200"
definition ERUPTION_CHANCE :: real where "ERUPTION_CHANCE = 0.005"
definition PARTICLES_PER_FRAME_DURING_ERUPTION :: nat where
  "PARTICLES_PER_FRAME_DURING_ERUPTION = 5"
definition BASE_EMISSION_RATE :: real where "BASE_EMISSION_RATE = 0.1"
definition IO_ORBIT_RADIUS :: real where "IO_ORBIT_RADIUS = 12"
definition IO_ORBIT_SPEED :: real where "IO_ORBIT_SPEED = 0.005"

section \<open>The magnetic field\<close>

text \<open>\<^verbatim>\<open>getMagneticFieldVector(position, jupiterRotation)\<close>, statement by statement.\<close>

definition getMagneticFieldVector :: "Vector3 \<Rightarrow> jsnum \<Rightarrow> Vector3" where
  "getMagneticFieldVector position jupiterRotation =
     (let magneticPos = applyAxisAngle position (Vector3 (Fin 1) (Fin 0) (Fin 0)) (Fin MAGNETIC_TILT);
          magneticPos = applyAxisAngle magneticPos (Vector3 (Fin 0) (Fin 1) (Fin 0)) jupiterRotation;
          r = vlength magneticPos;
          r2 = jmul r r;
          r5 = jmul (jmul r2 r2) r;
          m = Vector3 (Fin 0) (Fin 1) (Fin 0);
          mDotR = dot m magneticPos;
          field = multiplyScalar magneticPos (jmul (Fin 3) mDotR);
          field = vsub field (multiplyScalar m r2);
          field = divideScalar field r5;
          field = applyAxisAngle field (Vector3 (Fin 0) (Fin 1) (Fin 0)) (jneg jupiterRotation);
          field = applyAxisAngle field (Vector3 (Fin 1) (Fin 0) (Fin 0)) (jneg (Fin MAGNETIC_TILT))
      in multiplyScalar field (Fin MAGNETIC_FIELD_STRENGTH))"

section \<open>The particle pool and the eruption state\<close>

text \<open>
  The three \<^verbatim>\<open>Float32Array\<close> buffers hold \<^verbatim>\<open>MAX_PARTICLES * 3\<close> numbers and are only
  ever indexed at \<^verbatim>\<open>i3 = i * 3\<close>, \<^verbatim>\<open>i3 + 1\<close>, \<^verbatim>\<open>i3 + 2\<close>, so each is a list of
  \<^verbatim>\<open>MAX_PARTICLES\<close> triples.  A store narrows the number to single precision.  A typed
  array ignores a write outside its range and reads \<^verbatim>\<open>undefined\<close> there, which
  \<^verbatim>\<open>isNaN\<close> and arithmetic treat as NaN.
\<close>

record pool =
  positions :: "Vector3 list"
  velocities :: "Vector3 list"
  colors :: "Vector3 list"
  activeParticles :: nat

record eruption =
  isActive :: bool
  countdown :: int
  cooldown :: int

definition getAt :: "Vector3 list \<Rightarrow> int \<Rightarrow> Vector3" where
  "getAt xs i = (if 0 \<le> i \<and> i < int (length xs) then xs ! nat i else Vector3 NaN NaN NaN)"

definition setAt :: "Vector3 list \<Rightarrow> int \<Rightarrow> Vector3 \<Rightarrow> Vector3 list" where
  "setAt xs i v = (if 0 \<le> i \<and> i < int (length xs) then xs[nat i := froundV v] else xs)"

definition wf_pool :: "pool \<Rightarrow> bool" where
  "wf_pool p \<longleftrightarrow> length (positions p) = MAX_PARTICLES
     \<and> length (velocities p) = MAX_PARTICLES \<and> length (colors p) = MAX_PARTICLES"

text \<open>The buffers as the effect hook creates them: positions and velocities zero,
  every colour \<open>(1.0, 0.5, 0.2)\<close> as stored, no active particle, no eruption.\<close>

definition initial_pool :: pool where
  "initial_pool = \<lparr> positions = replicate MAX_PARTICLES zeroV,
     velocities = replicate MAX_PARTICLES zeroV,
     colors = replicate MAX_PARTICLES (froundV (Vector3 (Fin 1.0) (Fin 0.5) (Fin 0.2))),
     activeParticles = 0 \<rparr>"

definition initial_eruption :: eruption where
  "initial_eruption = \<lparr> isActive = False, countdown = 0, cooldown = 0 \<rparr>"

section \<open>Emission\<close>

text \<open>The draws of \<^verbatim>\<open>Math.random()\<close> during one call of \<^verbatim>\<open>animate\<close>, in the order in
  which the call makes them; the functions below pass the number of draws made so far.\<close>

type_synonym rng = "nat \<Rightarrow> real"

text \<open>A position near Io: \<^verbatim>\<open>io.moon.position.x + (Math.random() - 0.5) * spread\<close> and
  the same for \<open>y\<close> and \<open>z\<close>, three draws starting at draw \<open>k\<close>.\<close>

definition jitter :: "Vector3 \<Rightarrow> real \<Rightarrow> rng \<Rightarrow> nat \<Rightarrow> Vector3" where
  "jitter io spread r k =
     Vector3 (jadd (vx io) (Fin ((r k - 0.5) * spread)))
             (jadd (vy io) (Fin ((r (k + 1) - 0.5) * spread)))
             (jadd (vz io) (Fin ((r (k + 2) - 0.5) * spread)))"

text \<open>
  Choice of the slot (lines 337--343 and 386--392).  The test reads the constant
  \<^verbatim>\<open>activeParticles\<close> that \<^verbatim>\<open>animate\<close> destructured from \<^verbatim>\<open>particleSystemRef.current\<close>
  at line 319, here \<open>local\<close>; the increment goes to the field of the object.  A draw is
  a double in \<open>[0, 1)\<close>, and \<^verbatim>\<open>Math.floor\<close> takes the product as rounded to a double.
\<close>

definition chooseSlot :: "nat \<Rightarrow> rng \<Rightarrow> pool \<times> nat \<Rightarrow> int \<times> pool \<times> nat" where
  "chooseSlot local r pk =
     (case pk of (p, k) \<Rightarrow>
       if local < MAX_PARTICLES
       then (int local, p\<lparr>activeParticles := activeParticles p + 1\<rparr>, k)
       else (\<lfloor>float64 (r k * real MAX_PARTICLES)\<rfloor>, p, k + 1))"

text \<open>The writes of one spawn (lines 345--372 with spread \<open>1.2\<close>, speed
  \<open>0.04 + u * 0.02\<close> and colour \<open>(1.0, 0.7, 0.3)\<close>; lines 394--417 with \<open>0.8\<close>,
  \<open>0.02 + u * 0.01\<close> and \<open>(1.0, 0.5, 0.2)\<close>).\<close>

definition spawnParticle ::
  "nat \<Rightarrow> Vector3 \<Rightarrow> real \<Rightarrow> real \<Rightarrow> real \<Rightarrow> Vector3 \<Rightarrow> rng \<Rightarrow> pool \<times> nat \<Rightarrow> pool \<times> nat" where
  "spawnParticle local io spread speed0 speedRange colour r pk =
     (case chooseSlot local r pk of (particleIndex, p, k) \<Rightarrow>
       let p = p\<lparr>positions := setAt (positions p) particleIndex (jitter io spread r k)\<rparr>;
           radialDir = normalize (getAt (positions p) particleIndex);
           speed = Fin (speed0 + r (k + 3) * speedRange);
           p = p\<lparr>velocities := setAt (velocities p) particleIndex (multiplyScalar radialDir speed)\<rparr>;
           p = p\<lparr>colors := setAt (colors p) particleIndex colour\<rparr>
       in (p, k + 4))"

definition eruptionAttempt :: "nat \<Rightarrow> Vector3 \<Rightarrow> rng \<Rightarrow> pool \<times> nat \<Rightarrow> pool \<times> nat" where
  "eruptionAttempt local io r pk =
     (case pk of (p, k) \<Rightarrow>
       if r k < 0.8
       then spawnParticle local io 1.2 0.04 0.02 (Vector3 (Fin 1.0) (Fin 0.7) (Fin 0.3)) r (p, k + 1)
       else (p, k + 1))"

text \<open>Lines 324--420: the eruption state and the emission of one call.\<close>

definition emit :: "Vector3 \<Rightarrow> rng \<Rightarrow> pool \<times> eruption \<Rightarrow> pool \<times> eruption \<times> nat" where
  "emit io r pe =
     (case pe of (p, e) \<Rightarrow>
       let local = activeParticles p in
       if isActive e then
         let e = e\<lparr>countdown := countdown e - 1\<rparr>;
             e = (if countdown e \<le> 0
                  then e\<lparr>isActive := False, cooldown := ERUPTION_COOLDOWN\<rparr> else e);
             pk = ((eruptionAttempt local io r) ^^ PARTICLES_PER_FRAME_DURING_ERUPTION) (p, 0)
         in (fst pk, e, snd pk)
       else if 0 < cooldown e then (p, e\<lparr>cooldown := cooldown e - 1\<rparr>, 0)
       else if r 0 < ERUPTION_CHANCE
         then (p, e\<lparr>isActive := True, countdown := ERUPTION_DURATION\<rparr>, 1)
       else if r 1 < BASE_EMISSION_RATE then
         let pk = spawnParticle local io 0.8 0.02 0.01 (Vector3 (Fin 1.0) (Fin 0.5) (Fin 0.2)) r (p, 2)
         in (fst pk, e, snd pk)
       else (p, e, 2))"

text \<open>The eruption state machine alone (lines 324--331 and 377--382), on the first
  draw of the frame.\<close>

definition advance :: "real \<Rightarrow> eruption \<Rightarrow> eruption" where
  "advance u e =
     (if isActive e then
        (if countdown e - 1 \<le> 0
         then e\<lparr>countdown := countdown e - 1, isActive := False, cooldown := ERUPTION_COOLDOWN\<rparr>
         else e\<lparr>countdown := countdown e - 1\<rparr>)
      else if 0 < cooldown e then e\<lparr>cooldown := cooldown e - 1\<rparr>
      else if u < ERUPTION_CHANCE then e\<lparr>isActive := True, countdown := ERUPTION_DURATION\<rparr>
      else e)"

section \<open>The integrator\<close>

text \<open>The force terms of lines 464--519, each on the velocity so far.\<close>

definition magneticForce :: "jsnum \<Rightarrow> Vector3 \<Rightarrow> Vector3 \<Rightarrow> Vector3" where
  "magneticForce rot position velocity =
     (let B = getMagneticFieldVector position rot;
          force = cross velocity B
      in if \<not> isNaN (vlength force) then vadd velocity force else velocity)"

definition corotationForce :: "Vector3 \<Rightarrow> Vector3 \<Rightarrow> Vector3" where
  "corotationForce position velocity =
     (let corotationSpeed = jmul (Fin JUPITER_ROTATION_SPEED)
            (jsub (Fin 1.0) (jexp (jdiv (jneg (vlength position)) (Fin 15))));
          corotation = multiplyScalar
            (normalize (Vector3 (jneg (vz position)) (Fin 0) (vx position))) corotationSpeed
      in if \<not> isNaN (vlength corotation) then vadd velocity corotation else velocity)"

definition radialContainment :: "Vector3 \<Rightarrow> jsnum \<Rightarrow> Vector3 \<Rightarrow> Vector3" where
  "radialContainment position distance velocity =
     (let idealRadius = Fin TORUS_RADIUS;
          radialForce = normalize position;
          radialStrength =
            (if jgt distance idealRadius
             then jmul (Fin (- 0.01)) (jsub distance idealRadius)
             else jmul (Fin 0.01) (jsub idealRadius distance))
      in if \<not> isNaN radialStrength
         then vadd velocity (multiplyScalar radialForce radialStrength) else velocity)"

definition verticalContainment :: "Vector3 \<Rightarrow> Vector3 \<Rightarrow> Vector3" where
  "verticalContainment position velocity =
     (let velocity = Vector3 (vx velocity) (jmul (vy velocity) (Fin 0.95)) (vz velocity);
          heightForce = Vector3 (Fin 0) (jmul (jneg (vy position)) (Fin 0.02)) (Fin 0)
      in vadd velocity heightForce)"

definition limitSpeed :: "Vector3 \<Rightarrow> Vector3" where
  "limitSpeed velocity =
     (let maxSpeed = Fin 0.2;
          currentSpeed = vlength velocity
      in if jgt currentSpeed maxSpeed
         then multiplyScalar velocity (jdiv maxSpeed currentSpeed) else velocity)"

definition ionizationColor :: "Vector3 \<Rightarrow> Vector3 \<Rightarrow> Vector3" where
  "ionizationColor io position =
     (let distanceFromIo = vlength (vsub position io);
          ionization = Math_min (Fin 1.0) (jdiv distanceFromIo (Fin 5.0))
      in Vector3 (Math_max (Fin 0.2) (jsub (Fin 1.0) ionization))
                 (jadd (Fin 0.3) (jmul ionization (Fin 0.2)))
                 (jadd (Fin 0.2) (jmul ionization (Fin 0.8))))"

text \<open>A slot is its position, velocity and colour.  \<open>updateParticle\<close> is the body of
  the loop of lines 424--551 on the values read from one slot; it returns the position
  and the velocity it stores, the colour when it stores one, and the number of draws
  made.  The colour is computed from \<^verbatim>\<open>positions[i3]\<close> as read back after the store of
  line 523, that is from the narrowed position.\<close>

type_synonym slot = "Vector3 \<times> Vector3 \<times> Vector3"

definition updateParticle ::
  "Vector3 \<Rightarrow> jsnum \<Rightarrow> rng \<Rightarrow> nat \<Rightarrow> slot \<Rightarrow> (Vector3 \<times> Vector3 \<times> Vector3 option) \<times> nat" where
  "updateParticle io rot r k s =
     (case s of (position, vel, colour) \<Rightarrow>
       if isNaN (vx position) \<or> isNaN (vy position) \<or> isNaN (vz position)
       then ((io, zeroV, None), k)
       else
         let distance = vlength position in
         if jgt distance (Fin MAX_DISTANCE) \<or> jlt distance (Fin MIN_DISTANCE)
         then ((jitter io 0.8 r k, zeroV, None), k + 3)
         else
           let velocity = magneticForce rot position vel;
               velocity = corotationForce position velocity;
               velocity = radialContainment position distance velocity;
               velocity = verticalContainment position velocity;
               velocity = limitSpeed velocity
           in if \<not> isNaN (vlength velocity)
              then let position = vadd position velocity
                   in ((position, velocity, Some (ionizationColor io (froundV position))), k)
              else ((io, zeroV, None), k))"

definition slotAt :: "pool \<Rightarrow> nat \<Rightarrow> slot" where
  "slotAt p i = (getAt (positions p) (int i), getAt (velocities p) (int i), getAt (colors p) (int i))"

definition stepAt :: "Vector3 \<Rightarrow> jsnum \<Rightarrow> rng \<Rightarrow> nat \<Rightarrow> pool \<times> nat \<Rightarrow> pool \<times> nat" where
  "stepAt io rot r i pk =
     (case pk of (p, k) \<Rightarrow>
       case updateParticle io rot r k (slotAt p i) of ((position, velocity, colour), k') \<Rightarrow>
         (p\<lparr>positions := setAt (positions p) (int i) position,
            velocities := setAt (velocities p) (int i) velocity,
            colors := (case colour of None \<Rightarrow> colors p
                       | Some c \<Rightarrow> setAt (colors p) (int i) c)\<rparr>, k'))"

text \<open>What a slot holds after the stores of the loop body: the position and the
  velocity narrowed, and the colour narrowed when one is stored.\<close>

definition storedSlot :: "Vector3 \<times> Vector3 \<times> Vector3 option \<Rightarrow> slot \<Rightarrow> slot" where
  "storedSlot w s =
     (case w of (position, velocity, colour) \<Rightarrow>
       (froundV position, froundV velocity,
        case colour of None \<Rightarrow> snd (snd s) | Some c \<Rightarrow> froundV c))"

definition integrate :: "Vector3 \<Rightarrow> jsnum \<Rightarrow> rng \<Rightarrow> nat \<Rightarrow> pool \<times> nat \<Rightarrow> pool \<times> nat" where
  "integrate io rot r numParticlesToUpdate pk =
     fold (stepAt io rot r) [0..<numParticlesToUpdate] pk"

section \<open>One frame\<close>

text \<open>Emission and integration for a given position of Io and rotation of Jupiter.\<close>

definition tick :: "Vector3 \<Rightarrow> jsnum \<Rightarrow> rng \<Rightarrow> pool \<times> eruption \<Rightarrow> pool \<times> eruption" where
  "tick io rot r pe =
     (let local = activeParticles (fst pe);
          (p, e, k) = emit io r pe;
          numParticlesToUpdate = max MAX_PARTICLES local
      in (fst (integrate io rot r numParticlesToUpdate (p, k)), e))"

record sim =
  rotationY :: jsnum
  angle :: nat
  psys :: pool
  erupt :: eruption

definition ioPosition :: "nat \<Rightarrow> Vector3" where
  "ioPosition a =
     Vector3 (jmul (Fin IO_ORBIT_RADIUS) (jcos (jmul (Fin (real a)) (Fin IO_ORBIT_SPEED))))
             (Fin 0)
             (jmul (Fin IO_ORBIT_RADIUS) (jsin (jmul (Fin (real a)) (Fin IO_ORBIT_SPEED))))"

text \<open>\<^verbatim>\<open>animate\<close>, lines 298--560, without the rendering.\<close>

definition animate :: "rng \<Rightarrow> sim \<Rightarrow> sim" where
  "animate r s =
     (let rot = jadd (rotationY s) (Fin JUPITER_ROTATION_SPEED);
          io = ioPosition (angle s);
          pe = tick io rot r (psys s, erupt s)
      in \<lparr> rotationY = rot, angle = angle s + 1, psys = fst pe, erupt = snd pe \<rparr>)"

definition initial_sim :: sim where
  "initial_sim = \<lparr> rotationY = Fin 0, angle = 0, psys = initial_pool, erupt = initial_eruption \<rparr>"

text \<open>A run: one stream of draws for each frame, in order.\<close>

definition run :: "rng list \<Rightarrow> sim \<Rightarrow> sim" where
  "run rs s = fold animate rs s"

section \<open>Predicates of the properties\<close>

text \<open>A colour channel in the interval \<open>[0, 1]\<close>, and a colour with three such channels.\<close>

fun in_unit :: "jsnum \<Rightarrow> bool" where
  "in_unit (Fin a) = (0 \<le> a \<and> a \<le> 1)"
| "in_unit _ = False"

definition color_ok :: "Vector3 \<Rightarrow> bool" where
  "color_ok c \<longleftrightarrow> in_unit (vx c) \<and> in_unit (vy c) \<and> in_unit (vz c)"

definition hasNaN :: "Vector3 \<Rightarrow> bool" where
  "hasNaN v \<longleftrightarrow> isNaN (vx v) \<or> isNaN (vy v) \<or> isNaN (vz v)"

text \<open>A finite number of magnitude at most \<open>b\<close>, and a vector of three such numbers.\<close>

fun magnitude_le :: "real \<Rightarrow> jsnum \<Rightarrow> bool" where
  "magnitude_le b (Fin a) = (\<bar>a\<bar> \<le> b)"
| "magnitude_le b _ = False"

definition magnitude_leV :: "real \<Rightarrow> Vector3 \<Rightarrow> bool" where
  "magnitude_leV b v \<longleftrightarrow> magnitude_le b (vx v) \<and> magnitude_le b (vy v) \<and> magnitude_le b (vz v)"

text \<open>The draws of a frame are in \<open>[0, 1)\<close>, as \<^verbatim>\<open>Math.random()\<close> returns them.\<close>

definition unit_draws :: "rng \<Rightarrow> bool" where
  "unit_draws r \<longleftrightarrow> (\<forall>k. 0 \<le> r k \<and> r k < 1)"

section \<open>The field model in real arithmetic\<close>



text \<open>
  Vectors of real numbers, the rotation by an angle about the x-axis and about the
  y-axis (right-handed, as matrices), and the dipole formula
  \<open>B = (3 (m \<cdot> r) r - m r\<^sup>2) / r\<^sup>5\<close> with \<open>m = (0, 1, 0)\<close> and \<open>r\<close> the Euclidean norm.
\<close>

type_synonym rvec = "real \<times> real \<times> real"

definition toVector3 :: "rvec \<Rightarrow> Vector3" where
  "toVector3 v = (case v of (x, y, z) \<Rightarrow> Vector3 (Fin x) (Fin y) (Fin z))"









section \<open>The eruption state machine\<close>

lemma emit_eruption: "fst (snd (emit io r (p, e))) = advance (r 0) e"
  by (simp add: emit_def advance_def Let_def)

lemma tick_eruption: "snd (tick io rot r (p, e)) = advance (r 0) e"
  using emit_eruption [of io r p e]
  by (cases "emit io r (p, e)") (simp add: tick_def Let_def)

lemma animate_erupt: "erupt (animate r s) = advance (r 0) (erupt s)"
  by (simp add: animate_def Let_def tick_eruption)

lemma run_Nil: "run [] s = s"
  by (simp add: run_def)

lemma run_Cons: "run (r # rs) s = run rs (animate r s)"
  by (simp add: run_def)

lemma run_append: "run (rs @ rs') s = run rs' (run rs s)"
  by (simp add: run_def)

lemma run_erupting:
  "isActive (erupt s) \<Longrightarrow> int (length rs) < countdown (erupt s) \<Longrightarrow>
   erupt (run rs s) = (erupt s)\<lparr>countdown := countdown (erupt s) - int (length rs)\<rparr>"
proof (induction rs arbitrary: s)
  case Nil
  then show ?case by (simp add: run_Nil)
next
  case (Cons r rs)
  from Cons.prems have e: "erupt (animate r s) = (erupt s)\<lparr>countdown := countdown (erupt s) - 1\<rparr>"
    by (simp add: animate_erupt advance_def)
  have "erupt (run rs (animate r s)) =
      (erupt (animate r s))\<lparr>countdown := countdown (erupt (animate r s)) - int (length rs)\<rparr>"
    using Cons.prems by (intro Cons.IH) (simp_all add: e)
  then show ?case by (simp add: run_Cons e)
qed

lemma run_cooling:
  "\<not> isActive (erupt s) \<Longrightarrow> int (length rs) \<le> cooldown (erupt s) \<Longrightarrow>
   erupt (run rs s) = (erupt s)\<lparr>cooldown := cooldown (erupt s) - int (length rs)\<rparr>"
proof (induction rs arbitrary: s)
  case Nil
  then show ?case by (simp add: run_Nil)
next
  case (Cons r rs)
  from Cons.prems have e: "erupt (animate r s) = (erupt s)\<lparr>cooldown := cooldown (erupt s) - 1\<rparr>"
    by (simp add: animate_erupt advance_def)
  have "erupt (run rs (animate r s)) =
      (erupt (animate r s))\<lparr>cooldown := cooldown (erupt (animate r s)) - int (length rs)\<rparr>"
    using Cons.prems by (intro Cons.IH) (simp_all add: e)
  then show ?case by (simp add: run_Cons e)
qed

lemma run_eruption_ends:
  assumes "isActive (erupt s)" and "0 < countdown (erupt s)"
    and "int (length rs) = countdown (erupt s)"
  shows "erupt (run rs s) = \<lparr>isActive = False, countdown = 0, cooldown = ERUPTION_COOLDOWN\<rparr>"
proof -
  from assms obtain rs' r where rs: "rs = rs' @ [r]"
    by (cases rs rule: rev_cases) auto
  with assms have len: "int (length rs') = countdown (erupt s) - 1" by simp
  then have "erupt (run rs' s) = (erupt s)\<lparr>countdown := 1\<rparr>"
    using run_erupting [of s rs'] assms by simp
  then show ?thesis using assms(1)
    by (simp add: rs run_append run_Cons run_Nil animate_erupt advance_def)
qed


text \<open>
  Claim C3.  Let the controller be erupting with \<open>countdown = ERUPTION_DURATION\<close> (the
  state in which an eruption starts).  Whatever is drawn: after fewer than
  \<open>ERUPTION_DURATION\<close> frames it is still erupting; after exactly \<open>ERUPTION_DURATION\<close>
  frames it is inactive with \<open>cooldown = ERUPTION_COOLDOWN\<close>; none of the next
  \<open>ERUPTION_COOLDOWN\<close> frames, whatever it draws, makes it erupt; and the frame
  after those starts an eruption when its first draw is below \<open>ERUPTION_CHANCE\<close>.
\<close>

theorem eruption_timing:
  assumes "isActive (erupt s)" and "countdown (erupt s) = ERUPTION_DURATION"
  shows "(int (length rs1) < ERUPTION_DURATION \<longrightarrow> isActive (erupt (run rs1 s)))
    \<and> (int (length rs2) = ERUPTION_DURATION \<longrightarrow>
         erupt (run rs2 s) = \<lparr>isActive = False, countdown = 0, cooldown = ERUPTION_COOLDOWN\<rparr>)
    \<and> (ERUPTION_DURATION \<le> int (length rs3)
         \<and> int (length rs3) < ERUPTION_DURATION + ERUPTION_COOLDOWN \<longrightarrow>
         \<not> isActive (erupt (animate r3 (run rs3 s))))
    \<and> (int (length rs4) = ERUPTION_DURATION + ERUPTION_COOLDOWN \<and> r4 0 < ERUPTION_CHANCE \<longrightarrow>
         erupt (animate r4 (run rs4 s)) =
           \<lparr>isActive = True, countdown = ERUPTION_DURATION, cooldown = 0\<rparr>)"
proof -
  let ?q = "\<lparr>isActive = False, countdown = 0, cooldown = ERUPTION_COOLDOWN\<rparr>"
  have ends: "erupt (run rs s) = ?q" if "int (length rs) = ERUPTION_DURATION" for rs
    using run_eruption_ends [of s rs] assms that by (simp add: ERUPTION_DURATION_def)
  have cool: "erupt (run rs s) = ?q\<lparr>cooldown := ERUPTION_COOLDOWN - (int (length rs) - ERUPTION_DURATION)\<rparr>"
    if "ERUPTION_DURATION \<le> int (length rs)"
      and "int (length rs) \<le> ERUPTION_DURATION + ERUPTION_COOLDOWN" for rs
  proof -
    define a where "a = take (nat ERUPTION_DURATION) rs"
    define b where "b = drop (nat ERUPTION_DURATION) rs"
    have la: "int (length a) = ERUPTION_DURATION"
      using that by (simp add: a_def ERUPTION_DURATION_def)
    have lb: "int (length b) = int (length rs) - ERUPTION_DURATION"
      using that by (simp add: b_def ERUPTION_DURATION_def)
    have split: "run rs s = run b (run a s)"
      using run_append [of a b s] by (simp add: a_def b_def)
    have "erupt (run b (run a s)) =
        (erupt (run a s))\<lparr>cooldown := cooldown (erupt (run a s)) - int (length b)\<rparr>"
      using that by (intro run_cooling) (simp_all add: ends [OF la] lb)
    then show ?thesis by (simp add: split ends [OF la] lb)
  qed
  have p1: "int (length rs1) < ERUPTION_DURATION \<longrightarrow> isActive (erupt (run rs1 s))"
    using run_erupting [of s rs1] assms by simp
  have p2: "int (length rs2) = ERUPTION_DURATION \<longrightarrow> erupt (run rs2 s) = ?q"
    using ends by blast
  have p3: "ERUPTION_DURATION \<le> int (length rs3)
         \<and> int (length rs3) < ERUPTION_DURATION + ERUPTION_COOLDOWN \<longrightarrow>
         \<not> isActive (erupt (animate r3 (run rs3 s)))"
  proof
    assume h: "ERUPTION_DURATION \<le> int (length rs3)
         \<and> int (length rs3) < ERUPTION_DURATION + ERUPTION_COOLDOWN"
    then have "erupt (run rs3 s) =
        ?q\<lparr>cooldown := ERUPTION_COOLDOWN - (int (length rs3) - ERUPTION_DURATION)\<rparr>"
      by (intro cool) simp_all
    then show "\<not> isActive (erupt (animate r3 (run rs3 s)))"
      using h by (simp add: animate_erupt advance_def)
  qed
  have p4: "int (length rs4) = ERUPTION_DURATION + ERUPTION_COOLDOWN \<and> r4 0 < ERUPTION_CHANCE \<longrightarrow>
         erupt (animate r4 (run rs4 s)) =
           \<lparr>isActive = True, countdown = ERUPTION_DURATION, cooldown = 0\<rparr>"
  proof
    assume h: "int (length rs4) = ERUPTION_DURATION + ERUPTION_COOLDOWN \<and> r4 0 < ERUPTION_CHANCE"
    then have "erupt (run rs4 s) =
        ?q\<lparr>cooldown := ERUPTION_COOLDOWN - (int (length rs4) - ERUPTION_DURATION)\<rparr>"
      by (intro cool) (simp_all add: ERUPTION_COOLDOWN_def)
    then show "erupt (animate r4 (run rs4 s)) =
           \<lparr>isActive = True, countdown = ERUPTION_DURATION, cooldown = 0\<rparr>"
      using h by (simp add: animate_erupt advance_def)
  qed
  from p1 p2 p3 p4 show ?thesis by blast
qed

theorem eruption_timing_witness:
  "isActive (erupt (initial_sim\<lparr>erupt := \<lparr>isActive = True, countdown = ERUPTION_DURATION, cooldown = 0\<rparr>\<rparr>))
   \<and> int (length (replicate 99 (\<lambda>_. 0 :: real))) < ERUPTION_DURATION
   \<and> isActive (erupt (run (replicate 99 (\<lambda>_. 0))
        (initial_sim\<lparr>erupt := \<lparr>isActive = True, countdown = ERUPTION_DURATION, cooldown = 0\<rparr>\<rparr>)))
   \<and> int (length (replicate 100 (\<lambda>_. 0 :: real))) = ERUPTION_DURATION
   \<and> erupt (run (replicate 100 (\<lambda>_. 0))
        (initial_sim\<lparr>erupt := \<lparr>isActive = True, countdown = ERUPTION_DURATION, cooldown = 0\<rparr>\<rparr>))
       = \<lparr>isActive = False, countdown = 0, cooldown = ERUPTION_COOLDOWN\<rparr>
   \<and> int (length (replicate 299 (\<lambda>_. 0 :: real))) < ERUPTION_DURATION + ERUPTION_COOLDOWN
   \<and> \<not> isActive (erupt (animate (\<lambda>_. 0) (run (replicate 299 (\<lambda>_. 0))
        (initial_sim\<lparr>erupt := \<lparr>isActive = True, countdown = ERUPTION_DURATION, cooldown = 0\<rparr>\<rparr>))))
   \<and> int (length (replicate 300 (\<lambda>_. 0 :: real))) = ERUPTION_DURATION + ERUPTION_COOLDOWN
   \<and> (0 :: real) < ERUPTION_CHANCE
   \<and> erupt (animate (\<lambda>_. 0) (run (replicate 300 (\<lambda>_. 0))
        (initial_sim\<lparr>erupt := \<lparr>isActive = True, countdown = ERUPTION_DURATION, cooldown = 0\<rparr>\<rparr>)))
       = \<lparr>isActive = True, countdown = ERUPTION_DURATION, cooldown = 0\<rparr>"
  using eruption_timing [of "initial_sim\<lparr>erupt := \<lparr>isActive = True, countdown = ERUPTION_DURATION, cooldown = 0\<rparr>\<rparr>"
    "replicate 99 (\<lambda>_. 0)" "replicate 100 (\<lambda>_. 0)" "replicate 299 (\<lambda>_. 0)" "\<lambda>_. 0"
    "replicate 300 (\<lambda>_. 0)" "\<lambda>_. 0"]
  by (simp add: ERUPTION_DURATION_def ERUPTION_COOLDOWN_def ERUPTION_CHANCE_def)

section \<open>Properties of the rounding\<close>

lemma round_half_even_ge: "of_int n \<le> z \<Longrightarrow> n \<le> round_half_even z"
proof -
  assume "of_int n \<le> z"
  then have "n \<le> \<lfloor>z\<rfloor>" by (simp add: le_floor_iff)
  then show ?thesis by (simp add: round_half_even_def Let_def)
qed

lemma round_half_even_le: "z \<le> of_int n \<Longrightarrow> round_half_even z \<le> n"
proof -
  assume h: "z \<le> of_int n"
  show ?thesis
  proof (cases "z = of_int n")
    case True
    then show ?thesis by (simp add: round_half_even_def Let_def)
  next
    case False
    with h have "z < of_int n" by simp
    then have "\<lfloor>z\<rfloor> < n" by (simp add: floor_less_iff)
    then show ?thesis by (simp add: round_half_even_def Let_def)
  qed
qed

lemma round_half_even_near: "\<bar>of_int (round_half_even z) - z\<bar> \<le> 1 / 2"
proof -
  have "of_int \<lfloor>z\<rfloor> \<le> z" "z < of_int \<lfloor>z\<rfloor> + 1" by linarith+
  then show ?thesis
    by (simp add: round_half_even_def Let_def abs_le_iff)
qed


lemma round_binary_near:
  assumes "x \<noteq> 0"
  shows "\<bar>round_binary prec emin x - x\<bar>
    \<le> 2 powr of_int (max \<lfloor>log 2 \<bar>x\<bar>\<rfloor> emin - (prec - 1)) / 2"
proof -
  define u :: real where "u = 2 powr of_int (max \<lfloor>log 2 \<bar>x\<bar>\<rfloor> emin - (prec - 1))"
  have u: "0 < u" by (simp add: u_def)
  have "round_binary prec emin x = u * of_int (round_half_even (x / u))"
    unfolding u_def using assms by (simp add: round_binary_def Let_def)
  then have "round_binary prec emin x - x = u * (of_int (round_half_even (x / u)) - x / u)"
    using u by (simp add: right_diff_distrib)
  then have "\<bar>round_binary prec emin x - x\<bar> = u * \<bar>of_int (round_half_even (x / u)) - x / u\<bar>"
    using u by (simp add: abs_mult)
  also have "\<dots> \<le> u * (1 / 2)"
    using u round_half_even_near [of "x / u"] by (intro mult_left_mono) simp_all
  finally show ?thesis by (simp add: u_def)
qed

lemma floor_log_powr_le:
  assumes "x \<noteq> 0"
  shows "2 powr of_int \<lfloor>log 2 \<bar>x\<bar>\<rfloor> \<le> \<bar>x\<bar>"
proof -
  have "of_int \<lfloor>log 2 \<bar>x\<bar>\<rfloor> \<le> log 2 \<bar>x\<bar>" by simp
  then show ?thesis
    using assms le_log_iff [of 2 "\<bar>x\<bar>" "of_int \<lfloor>log 2 \<bar>x\<bar>\<rfloor>"] by simp
qed

lemma floor_log_less:
  assumes "x \<noteq> 0" and "\<bar>x\<bar> < 2 powr of_int k"
  shows "\<lfloor>log 2 \<bar>x\<bar>\<rfloor> < k"
proof -
  have "log 2 \<bar>x\<bar> < of_int k" using assms by (simp add: log_less_iff)
  then show ?thesis by (simp add: floor_less_iff)
qed

lemma float32_zero [simp]: "float32 0 = Fin 0"
  by (simp add: float32_def round_binary_def)

text \<open>Magnitudes below \<open>2\<^sup>1\<^sup>2\<^sup>8 - 2\<^sup>1\<^sup>0\<^sup>3\<close>, half a step beyond the largest single-precision
  number, stay finite in single precision.\<close>

lemma float32_finite:
  assumes "\<bar>x\<bar> < 2 ^ 128 - 2 ^ 103"
  shows "\<exists>y. float32 x = Fin y"
proof (cases "x = 0")
  case True
  then show ?thesis by simp
next
  case False
  define e where "e = max \<lfloor>log 2 \<bar>x\<bar>\<rfloor> (- 126)"
  have "\<bar>x\<bar> < 2 powr of_int 128" using assms by simp
  then have "\<lfloor>log 2 \<bar>x\<bar>\<rfloor> < 128" using False by (rule floor_log_less [rotated])
  then have e: "e \<le> 127" by (simp add: e_def)
  have "(2 :: real) powr of_int (e - (24 - 1)) \<le> 2 powr of_int 104"
    using e by (intro powr_mono) simp_all
  then have u: "(2 :: real) powr of_int (e - (24 - 1)) \<le> 2 ^ 104" by simp
  have "\<bar>round_binary 24 (- 126) x - x\<bar> \<le> 2 powr of_int (e - (24 - 1)) / 2"
    unfolding e_def using False by (rule round_binary_near)
  with u have "\<bar>round_binary 24 (- 126) x\<bar> \<le> \<bar>x\<bar> + 2 ^ 104 / 2" by linarith
  with assms have "\<bar>round_binary 24 (- 126) x\<bar> < 2 ^ 128" by simp
  then show ?thesis by (simp add: float32_def Let_def)
qed

text \<open>A magnitude in the normal range is not rounded to zero.\<close>

lemma float32_nonzero:
  assumes "1 / 2 ^ 126 \<le> \<bar>x\<bar>"
  shows "float32 x \<noteq> Fin 0"
proof -
  have x0: "x \<noteq> 0" using assms by auto
  define e where "e = max \<lfloor>log 2 \<bar>x\<bar>\<rfloor> (- 126)"
  have "(2 :: real) powr of_int (- 126) \<le> \<bar>x\<bar>"
    using assms by (simp add: powr_minus_divide)
  with floor_log_powr_le [OF x0] have le: "2 powr of_int e \<le> \<bar>x\<bar>"
    by (simp add: e_def max_def)
  define w :: real where "w = 2 powr of_int (e - (24 - 1))"
  have "w = 2 powr of_int e / 2 powr 23"
    by (simp add: w_def powr_diff)
  then have "2 powr of_int e = w * 8388608" by simp
  moreover have "0 < w" by (simp add: w_def)
  ultimately have "w / 2 < 2 powr of_int e" by linarith
  then have u: "(2 :: real) powr of_int (e - (24 - 1)) / 2 < 2 powr of_int e"
    by (simp only: w_def)
  have "\<bar>round_binary 24 (- 126) x - x\<bar> \<le> 2 powr of_int (e - (24 - 1)) / 2"
    unfolding e_def using x0 by (rule round_binary_near)
  with u le have "\<bar>round_binary 24 (- 126) x - x\<bar> < \<bar>x\<bar>" by linarith
  then have "round_binary 24 (- 126) x \<noteq> 0" by auto
  then show ?thesis by (simp add: float32_def Let_def)
qed


text \<open>Rounding keeps the interval \<open>[0, 1]\<close>, whose ends are single-precision numbers.\<close>

lemma float32_unit:
  assumes "0 \<le> x" and "x \<le> 1"
  shows "\<exists>y. float32 x = Fin y \<and> 0 \<le> y \<and> y \<le> 1"
proof (cases "x = 0")
  case True
  then show ?thesis by simp
next
  case False
  define e where "e = max \<lfloor>log 2 \<bar>x\<bar>\<rfloor> (- 126)"
  define u :: real where "u = 2 powr of_int (e - (24 - 1))"
  have u: "0 < u" by (simp add: u_def)
  have "\<bar>x\<bar> < 2 powr of_int 1" using assms by simp
  then have "\<lfloor>log 2 \<bar>x\<bar>\<rfloor> < 1" using False by (rule floor_log_less [rotated])
  then have e: "e \<le> 0" by (simp add: e_def)
  define n :: nat where "n = nat (23 - e)"
  have "1 / u = 2 powr of_int (23 - e)"
    by (simp add: u_def powr_minus_divide [symmetric])
  also have "\<dots> = 2 ^ n"
    unfolding n_def using e by (subst powr_int) auto
  finally have inv: "1 / u = of_int (2 ^ n)" by simp
  have y: "round_binary 24 (- 126) x = u * of_int (round_half_even (x / u))"
    using False by (simp add: round_binary_def Let_def u_def e_def)
  have "of_int 0 \<le> x / u" using assms u by simp
  then have lo: "0 \<le> round_half_even (x / u)" by (rule round_half_even_ge)
  have "x / u \<le> 1 / u" using assms u by (simp add: divide_right_mono)
  then have "x / u \<le> of_int (2 ^ n)" by (simp only: inv)
  then have "round_half_even (x / u) \<le> 2 ^ n" by (rule round_half_even_le)
  then have "of_int (round_half_even (x / u)) \<le> (of_int (2 ^ n) :: real)"
    by (simp only: of_int_le_iff)
  then have "u * of_int (round_half_even (x / u)) \<le> u * (1 / u)"
    using u by (simp only: inv mult_le_cancel_left_pos)
  then have hi: "round_binary 24 (- 126) x \<le> 1" using u by (simp add: y)
  have lo': "0 \<le> round_binary 24 (- 126) x" using u lo by (simp add: y)
  from lo' hi show ?thesis by (simp add: float32_def Let_def)
qed

text \<open>From \<open>2\<^sup>1\<^sup>2\<^sup>8\<close> on a number overflows to infinity.\<close>

lemma float32_overflow:
  assumes "2 ^ 128 \<le> x"
  shows "float32 x = PInf"
proof -
  have x0: "0 < x" using assms by (rule less_le_trans [rotated]) simp
  define e where "e = max \<lfloor>log 2 \<bar>x\<bar>\<rfloor> (- 126)"
  define u :: real where "u = 2 powr of_int (e - (24 - 1))"
  have u: "0 < u" by (simp add: u_def)
  have "(2 :: real) powr of_int 128 \<le> \<bar>x\<bar>" using assms x0 by simp
  then have "of_int 128 \<le> log 2 \<bar>x\<bar>" using x0 by (simp add: le_log_iff)
  then have "128 \<le> \<lfloor>log 2 \<bar>x\<bar>\<rfloor>" by (simp add: le_floor_iff)
  then have e: "e = \<lfloor>log 2 \<bar>x\<bar>\<rfloor>" and e128: "128 \<le> e" by (simp_all add: e_def)
  have pe: "2 powr of_int e \<le> x"
    using floor_log_powr_le [of x] x0 by (simp add: e)
  have ue: "2 powr of_int e = u * of_int (2 ^ 23)"
    by (simp add: u_def powr_diff)
  have y: "round_binary 24 (- 126) x = u * of_int (round_half_even (x / u))"
    using x0 by (simp add: round_binary_def Let_def u_def e_def)
  have "of_int (2 ^ 23) \<le> x / u"
    using pe u unfolding ue by (simp add: pos_le_divide_eq mult.commute)
  then have "2 ^ 23 \<le> round_half_even (x / u)" by (rule round_half_even_ge)
  then have "(of_int (2 ^ 23) :: real) \<le> of_int (round_half_even (x / u))"
    by (simp only: of_int_le_iff)
  then have "u * of_int (2 ^ 23) \<le> u * of_int (round_half_even (x / u))"
    using u by (simp only: mult_le_cancel_left_pos)
  then have "2 powr of_int e \<le> round_binary 24 (- 126) x"
    by (simp only: ue y)
  moreover have "(2 :: real) powr of_int 128 \<le> 2 powr of_int e"
    using e128 by (intro powr_mono) simp_all
  ultimately have "2 powr 128 \<le> round_binary 24 (- 126) x" by simp
  then show ?thesis using x0 by (simp add: float32_def Let_def)
qed

text \<open>One tenth is not a single-precision number.\<close>

lemma float32_tenth: "float32 (1 / 10) \<noteq> Fin (1 / 10)"
proof
  assume a: "float32 (1 / 10) = Fin (1 / 10)"
  have "\<lfloor>log 2 \<bar>1 / 10 :: real\<bar>\<rfloor> = - 4"
    by (subst floor_log_eq_powr_iff) (simp_all add: powr_minus_divide)
  then have "round_binary 24 (- 126) (1 / 10)
      = 2 powr of_int (- 27) * of_int (round_half_even ((1 / 10) / 2 powr of_int (- 27)))"
    by (simp add: round_binary_def Let_def)
  then obtain m :: int where m: "round_binary 24 (- 126) (1 / 10) = of_int m / 2 ^ 27"
    by (simp add: powr_minus_divide)
  from a have "round_binary 24 (- 126) (1 / 10) = 1 / 10"
    by (simp add: float32_def Let_def split: if_splits)
  with m have "real_of_int (m * 10) = real_of_int (2 ^ 27)" by simp
  then have "m * 10 = 2 ^ 27" by (simp only: of_int_eq_iff)
  then have "m * 10 = 134217728" by simp
  then show False by presburger
qed

lemma froundV_zeroV [simp]: "froundV zeroV = zeroV"
  by (simp add: froundV_def zeroV_def)

section \<open>The counter of active particles\<close>

lemma setAt_length [simp]: "length (setAt xs i v) = length xs"
  by (simp add: setAt_def)

lemma setAt_int: "i < length xs \<Longrightarrow> setAt xs (int i) v = xs[i := froundV v]"
  by (simp add: setAt_def)

lemma getAt_int: "i < length xs \<Longrightarrow> getAt xs (int i) = xs ! i"
  by (simp add: getAt_def)

text \<open>A spawn while the frame's copy of \<open>activeParticles\<close> is below the capacity.\<close>

lemma spawnParticle_growing:
  assumes "local < MAX_PARTICLES" and "wf_pool p"
  shows "spawnParticle local io spread speed0 speedRange colour r (p, k) =
    (p\<lparr>positions := (positions p)[local := froundV (jitter io spread r k)],
       velocities := (velocities p)[local := froundV
         (multiplyScalar (normalize (froundV (jitter io spread r k)))
           (Fin (speed0 + r (k + 3) * speedRange)))],
       colors := (colors p)[local := froundV colour],
       activeParticles := activeParticles p + 1\<rparr>, k + 4)"
  using assms
  by (simp add: spawnParticle_def chooseSlot_def wf_pool_def Let_def setAt_int getAt_int)

lemma spawnParticle_wf: "wf_pool p \<Longrightarrow> wf_pool (fst (spawnParticle local io spread speed0 speedRange colour r (p, k)))"
  by (simp add: spawnParticle_def chooseSlot_def wf_pool_def Let_def split: prod.splits)

lemma eruptionAttempt_wf: "wf_pool (fst pk) \<Longrightarrow> wf_pool (fst (eruptionAttempt local io r pk))"
  by (cases pk) (simp add: eruptionAttempt_def spawnParticle_wf)

lemma eruption_loop_wf:
  "wf_pool (fst pk) \<Longrightarrow> wf_pool (fst ((eruptionAttempt local io r ^^ n) pk))"
  by (induction n) (simp_all add: eruptionAttempt_wf)

lemma emit_wf: "wf_pool p \<Longrightarrow> wf_pool (fst (emit io r (p, e)))"
  by (simp add: emit_def Let_def eruption_loop_wf spawnParticle_wf)

lemma stepAt_activeParticles:
  "activeParticles (fst (stepAt io rot r i pk)) = activeParticles (fst pk)"
  by (simp add: stepAt_def split: prod.splits)

lemma integrate_activeParticles:
  "activeParticles (fst (integrate io rot r n pk)) = activeParticles (fst pk)"
  unfolding integrate_def
  by (induction n) (simp_all add: stepAt_activeParticles)

lemma tick_activeParticles:
  "activeParticles (fst (tick io rot r (p, e))) = activeParticles (fst (emit io r (p, e)))"
  by (cases "emit io r (p, e)") (simp add: tick_def Let_def integrate_activeParticles)

lemma animate_activeParticles:
  "activeParticles (psys (animate r s)) =
     activeParticles (fst (emit (ioPosition (angle s)) r (psys s, erupt s)))"
  by (simp add: animate_def Let_def tick_activeParticles)


lemma spawnParticle_activeParticles:
  "activeParticles (fst (spawnParticle local io spread speed0 speedRange colour r (p, k))) =
     (if local < MAX_PARTICLES then activeParticles p + 1 else activeParticles p)"
  by (simp add: spawnParticle_def chooseSlot_def Let_def)

lemma eruptionAttempt_activeParticles:
  "activeParticles (fst (eruptionAttempt local io r (p, k))) =
     (if r k < 0.8 \<and> local < MAX_PARTICLES then activeParticles p + 1 else activeParticles p)"
  by (simp add: eruptionAttempt_def spawnParticle_activeParticles)

lemma eruption_loop_activeParticles_mono:
  "activeParticles (fst pk) \<le> activeParticles (fst ((eruptionAttempt local io r ^^ n) pk))"
proof (induction n)
  case 0
  show ?case by simp
next
  case (Suc n)
  obtain q j where q: "(eruptionAttempt local io r ^^ n) pk = (q, j)"
    by (cases "(eruptionAttempt local io r ^^ n) pk")
  with Suc show ?case
    using eruptionAttempt_activeParticles [of local io r q j] by simp
qed

lemma eruption_loop_all_succeed:
  assumes "\<And>k. r k < 0.8" and "local < MAX_PARTICLES"
  shows "activeParticles (fst ((eruptionAttempt local io r ^^ n) pk)) = activeParticles (fst pk) + n"
proof (induction n)
  case 0
  show ?case by simp
next
  case (Suc n)
  obtain q j where q: "(eruptionAttempt local io r ^^ n) pk = (q, j)"
    by (cases "(eruptionAttempt local io r ^^ n) pk")
  with Suc assms show ?case
    using eruptionAttempt_activeParticles [of local io r q j] by simp
qed

text \<open>Background frames: the eruption roll fails and the emission roll succeeds.\<close>

lemma animate_background:
  assumes "\<not> isActive (erupt s)" and "cooldown (erupt s) \<le> 0"
    and "\<not> r 0 < ERUPTION_CHANCE" and "r 1 < BASE_EMISSION_RATE"
  shows "erupt (animate r s) = erupt s"
    and "activeParticles (psys (animate r s)) =
      (if activeParticles (psys s) < MAX_PARTICLES then activeParticles (psys s) + 1
       else activeParticles (psys s))"
  using assms
  by (simp_all add: animate_erupt advance_def animate_activeParticles emit_def Let_def
      spawnParticle_activeParticles)

lemma run_background:
  assumes "\<not> isActive (erupt s)" and "cooldown (erupt s) \<le> 0"
    and "\<not> r 0 < ERUPTION_CHANCE" and "r 1 < BASE_EMISSION_RATE"
    and "activeParticles (psys s) + n \<le> MAX_PARTICLES"
  shows "erupt (run (replicate n r) s) = erupt s
    \<and> activeParticles (psys (run (replicate n r) s)) = activeParticles (psys s) + n"
  using assms
proof (induction n arbitrary: s)
  case 0
  show ?case by (simp add: run_Nil)
next
  case (Suc n)
  have e: "erupt (animate r s) = erupt s"
    and a: "activeParticles (psys (animate r s)) = activeParticles (psys s) + 1"
    using animate_background [of s r] Suc.prems by simp_all
  have "erupt (run (replicate n r) (animate r s)) = erupt (animate r s)
    \<and> activeParticles (psys (run (replicate n r) (animate r s))) =
        activeParticles (psys (animate r s)) + n"
    using Suc.prems by (intro Suc.IH) (simp_all add: e a)
  then show ?case by (simp add: run_Cons e a)
qed

text \<open>
  Claim C1 fails on the program.  999 background frames from the initial state fill
  999 slots; the next frame starts an eruption; in the frame after it each of the five
  attempts tests the copy \<open>activeParticles = 999\<close> taken at the start of the frame and
  increments the counter of the pool, which ends at \<open>MAX_PARTICLES + 4\<close>.
\<close>

theorem activeParticles_exceeds_capacity:
  "activeParticles (psys (run (replicate 999 (\<lambda>_. 0.05) @ [\<lambda>_. 0, \<lambda>_. 0]) initial_sim))
     = MAX_PARTICLES + 4"
proof -
  define s1 where "s1 = run (replicate 999 (\<lambda>_. 0.05 :: real)) initial_sim"
  have "erupt s1 = erupt initial_sim
    \<and> activeParticles (psys s1) = activeParticles (psys initial_sim) + 999"
    unfolding s1_def
    by (intro run_background)
      (simp_all add: initial_sim_def initial_eruption_def initial_pool_def
        ERUPTION_CHANCE_def BASE_EMISSION_RATE_def MAX_PARTICLES_def)
  then have e1: "erupt s1 = initial_eruption" and a1: "activeParticles (psys s1) = 999"
    by (simp_all add: initial_sim_def initial_pool_def)
  define s2 where "s2 = animate (\<lambda>_. 0) s1"
  have e2: "erupt s2 = \<lparr>isActive = True, countdown = ERUPTION_DURATION, cooldown = 0\<rparr>"
    by (simp add: s2_def animate_erupt advance_def e1 initial_eruption_def ERUPTION_CHANCE_def)
  have a2: "activeParticles (psys s2) = 999"
    by (simp add: s2_def animate_activeParticles emit_def Let_def e1 a1 initial_eruption_def
        ERUPTION_CHANCE_def)
  have "activeParticles (psys (animate (\<lambda>_. 0) s2)) = 999 + 5"
    using eruption_loop_all_succeed [where r = "\<lambda>_. 0" and local = 999
        and io = "ioPosition (angle s2)" and n = 5 and pk = "(psys s2, 0)"]
    by (simp add: animate_activeParticles emit_def Let_def e2 a2 MAX_PARTICLES_def
        PARTICLES_PER_FRAME_DURING_ERUPTION_def)
  then show ?thesis
    unfolding s2_def s1_def
    by (simp add: run_append run_Cons run_Nil MAX_PARTICLES_def)
qed


lemma animate_activeParticles_mono:
  "activeParticles (psys s) \<le> activeParticles (psys (animate r s))"
  using eruption_loop_activeParticles_mono
    [where pk = "(psys s, 0)" and local = "activeParticles (psys s)"
      and io = "ioPosition (angle s)" and r = r and n = PARTICLES_PER_FRAME_DURING_ERUPTION]
  by (simp add: animate_activeParticles emit_def Let_def spawnParticle_activeParticles)

text \<open>With every attempt succeeding and the frame's copy of the counter below the
  capacity, all attempts of a frame write the same slot.\<close>

lemma jitter_const: "jitter io spread (\<lambda>_. c) k = jitter io spread (\<lambda>_. c) 0"
  by (simp add: jitter_def)

lemma eruptionAttempt_const:
  assumes "c < 0.8" and "local < MAX_PARTICLES" and "wf_pool p"
  shows "eruptionAttempt local io (\<lambda>_. c) (p, k) =
    (p\<lparr>positions := (positions p)[local := froundV (jitter io 1.2 (\<lambda>_. c) 0)],
       velocities := (velocities p)[local := froundV
         (multiplyScalar (normalize (froundV (jitter io 1.2 (\<lambda>_. c) 0))) (Fin (0.04 + c * 0.02)))],
       colors := (colors p)[local := froundV (Vector3 (Fin 1.0) (Fin 0.7) (Fin 0.3))],
       activeParticles := activeParticles p + 1\<rparr>, k + 5)"
  using assms jitter_const [where io = io and spread = "1.2" and c = c and k = "Suc k"]
  by (simp add: eruptionAttempt_def spawnParticle_growing)

lemma eruption_loop_const:
  assumes "c < 0.8" and "local < MAX_PARTICLES" and "wf_pool p"
  shows "(eruptionAttempt local io (\<lambda>_. c) ^^ Suc n) (p, k) =
    (p\<lparr>positions := (positions p)[local := froundV (jitter io 1.2 (\<lambda>_. c) 0)],
       velocities := (velocities p)[local := froundV
         (multiplyScalar (normalize (froundV (jitter io 1.2 (\<lambda>_. c) 0))) (Fin (0.04 + c * 0.02)))],
       colors := (colors p)[local := froundV (Vector3 (Fin 1.0) (Fin 0.7) (Fin 0.3))],
       activeParticles := activeParticles p + Suc n\<rparr>, k + 5 * Suc n)"
proof (induction n)
  case 0
  show ?case using assms by (simp add: eruptionAttempt_const)
next
  case (Suc n)
  let ?q = "p\<lparr>positions := (positions p)[local := froundV (jitter io 1.2 (\<lambda>_. c) 0)],
       velocities := (velocities p)[local := froundV
         (multiplyScalar (normalize (froundV (jitter io 1.2 (\<lambda>_. c) 0))) (Fin (0.04 + c * 0.02)))],
       colors := (colors p)[local := froundV (Vector3 (Fin 1.0) (Fin 0.7) (Fin 0.3))],
       activeParticles := activeParticles p + Suc n\<rparr>"
  have wf: "wf_pool ?q" using assms(3) by (simp add: wf_pool_def)
  have "(eruptionAttempt local io (\<lambda>_. c) ^^ Suc (Suc n)) (p, k) =
      eruptionAttempt local io (\<lambda>_. c) (?q, k + 5 * Suc n)"
    using Suc.IH by simp
  also have "\<dots> = (p\<lparr>positions := (positions p)[local := froundV (jitter io 1.2 (\<lambda>_. c) 0)],
       velocities := (velocities p)[local := froundV
         (multiplyScalar (normalize (froundV (jitter io 1.2 (\<lambda>_. c) 0))) (Fin (0.04 + c * 0.02)))],
       colors := (colors p)[local := froundV (Vector3 (Fin 1.0) (Fin 0.7) (Fin 0.3))],
       activeParticles := activeParticles p + Suc (Suc n)\<rparr>, k + 5 * Suc (Suc n))"
    using assms(1,2) wf by (simp add: eruptionAttempt_const)
  finally show ?case .
qed

text \<open>
  Claim C2 fails on the program in the erupting regime.  An eruption frame on the
  initial pool in which all five attempts succeed: the counter goes from 0 to 5, so
  the second to fifth spawn happen at \<open>activeParticles = 1, 2, 3, 4\<close>, but every
  spawn writes slot 0 and the slots 1 to 4 keep their initial contents: the buffers
  after emission are the initial ones with \<open>(11.4, -0.6, -0.6)\<close> and \<open>(1.0, 0.7, 0.3)\<close>
  stored at slot 0.
\<close>

theorem eruption_spawns_share_one_slot:
  "activeParticles (fst (emit (Vector3 (Fin 12) (Fin 0) (Fin 0)) (\<lambda>_. 0)
      (initial_pool, \<lparr>isActive = True, countdown = 100, cooldown = 0\<rparr>))) = 5
   \<and> positions (fst (emit (Vector3 (Fin 12) (Fin 0) (Fin 0)) (\<lambda>_. 0)
      (initial_pool, \<lparr>isActive = True, countdown = 100, cooldown = 0\<rparr>)))
     = (replicate MAX_PARTICLES zeroV)
         [0 := froundV (Vector3 (Fin 11.4) (Fin (- 0.6)) (Fin (- 0.6)))]
   \<and> colors (fst (emit (Vector3 (Fin 12) (Fin 0) (Fin 0)) (\<lambda>_. 0)
      (initial_pool, \<lparr>isActive = True, countdown = 100, cooldown = 0\<rparr>)))
     = (replicate MAX_PARTICLES (froundV (Vector3 (Fin 1.0) (Fin 0.5) (Fin 0.2))))
         [0 := froundV (Vector3 (Fin 1.0) (Fin 0.7) (Fin 0.3))]"
proof -
  have wf: "wf_pool initial_pool"
    by (simp add: wf_pool_def initial_pool_def)
  have five: "PARTICLES_PER_FRAME_DURING_ERUPTION = Suc 4"
    by (simp add: PARTICLES_PER_FRAME_DURING_ERUPTION_def)
  have loc: "activeParticles initial_pool < MAX_PARTICLES"
    by (simp add: initial_pool_def MAX_PARTICLES_def)
  show ?thesis
    unfolding emit_def five
    using eruption_loop_const [where c = 0 and local = "activeParticles initial_pool"
        and p = initial_pool and io = "Vector3 (Fin 12) (Fin 0) (Fin 0)" and n = 4 and k = 0,
        OF _ loc wf]
    by (simp add: Let_def initial_pool_def jitter_def)
qed

section \<open>The frame that starts an eruption\<close>

lemma eruptionAttempt_colour:
  assumes "local < MAX_PARTICLES" and "wf_pool (fst pk)"
    and "colors (fst pk) ! local = froundV (Vector3 (Fin 1.0) (Fin 0.7) (Fin 0.3))"
  shows "colors (fst (eruptionAttempt local io r pk)) ! local = froundV (Vector3 (Fin 1.0) (Fin 0.7) (Fin 0.3))"
proof (cases pk)
  case (Pair p k)
  with assms show ?thesis
    by (simp add: eruptionAttempt_def spawnParticle_growing wf_pool_def)
qed

lemma eruption_loop_colour:
  assumes "local < MAX_PARTICLES" and "wf_pool (fst pk)"
    and "colors (fst pk) ! local = froundV (Vector3 (Fin 1.0) (Fin 0.7) (Fin 0.3))"
  shows "colors (fst ((eruptionAttempt local io r ^^ n) pk)) ! local
    = froundV (Vector3 (Fin 1.0) (Fin 0.7) (Fin 0.3))"
  using assms
  by (induction n) (simp_all add: eruptionAttempt_colour eruption_loop_wf)

text \<open>
  Claim C10.  In a frame that finds the controller ready (not active, cooldown 0) and
  whose first draw is below \<open>ERUPTION_CHANCE\<close>, the emission writes nothing: the pool,
  counter included, is returned as it was, one draw was made, and the controller is
  erupting with \<open>countdown = ERUPTION_DURATION\<close>; after the whole frame the counter is
  still unchanged.  The erupting regime runs in the following frame: when the first
  draw of that frame is below 0.8 and the counter is below the capacity, the slot at
  the counter holds the eruption colour \<open>(1.0, 0.7, 0.3)\<close>, as the buffer stores it,
  after emission and the counter has grown.
\<close>

theorem eruption_start_emits_nothing:
  assumes "\<not> isActive e" and "cooldown e = 0" and "r 0 < ERUPTION_CHANCE"
  shows "emit io r (p, e) = (p, e\<lparr>isActive := True, countdown := ERUPTION_DURATION\<rparr>, 1)
    \<and> activeParticles (fst (tick io rot r (p, e))) = activeParticles p
    \<and> snd (tick io rot r (p, e)) = e\<lparr>isActive := True, countdown := ERUPTION_DURATION\<rparr>
    \<and> (wf_pool q \<and> activeParticles q < MAX_PARTICLES \<and> r' 0 < 0.8 \<longrightarrow>
         colors (fst (emit io' r' (q, e\<lparr>isActive := True, countdown := ERUPTION_DURATION\<rparr>)))
             ! activeParticles q = froundV (Vector3 (Fin 1.0) (Fin 0.7) (Fin 0.3))
         \<and> activeParticles q
             < activeParticles (fst (emit io' r' (q, e\<lparr>isActive := True, countdown := ERUPTION_DURATION\<rparr>))))"
proof -
  let ?e = "e\<lparr>isActive := True, countdown := ERUPTION_DURATION\<rparr>"
  have em: "emit io r (p, e) = (p, ?e, 1)"
    using assms by (simp add: emit_def Let_def)
  have ap: "activeParticles (fst (tick io rot r (p, e))) = activeParticles p"
    by (simp add: tick_activeParticles em)
  have er: "snd (tick io rot r (p, e)) = ?e"
    using assms by (simp add: tick_eruption advance_def)
  have nxt: "colors (fst (emit io' r' (q, ?e))) ! activeParticles q
           = froundV (Vector3 (Fin 1.0) (Fin 0.7) (Fin 0.3))
         \<and> activeParticles q < activeParticles (fst (emit io' r' (q, ?e)))"
    if wf: "wf_pool q" and lt: "activeParticles q < MAX_PARTICLES" and r': "r' 0 < 0.8"
  proof -
    let ?f = "eruptionAttempt (activeParticles q) io' r'"
    obtain q1 k1 where first: "?f (q, 0) = (q1, k1)"
      by (cases "?f (q, 0)")
    have wf1: "wf_pool q1"
      using eruptionAttempt_wf [of "(q, 0)" "activeParticles q" io' r'] wf first by simp
    have c1: "colors q1 ! activeParticles q = froundV (Vector3 (Fin 1.0) (Fin 0.7) (Fin 0.3))"
      using first wf lt r'
      by (auto simp add: eruptionAttempt_def spawnParticle_growing wf_pool_def)
    have a1: "activeParticles q1 = activeParticles q + 1"
      using eruptionAttempt_activeParticles [of "activeParticles q" io' r' q 0] first lt r'
      by simp
    have loop: "(?f ^^ PARTICLES_PER_FRAME_DURING_ERUPTION) (q, 0) = (?f ^^ 4) (q1, k1)"
      using first funpow_Suc_right [of 4 ?f]
      by (simp add: PARTICLES_PER_FRAME_DURING_ERUPTION_def del: funpow.simps)
    have "colors (fst ((?f ^^ 4) (q1, k1))) ! activeParticles q
        = froundV (Vector3 (Fin 1.0) (Fin 0.7) (Fin 0.3))"
      using lt wf1 c1 by (intro eruption_loop_colour) simp_all
    moreover have "activeParticles q1 \<le> activeParticles (fst ((?f ^^ 4) (q1, k1)))"
      using eruption_loop_activeParticles_mono [of "(q1, k1)"] by simp
    ultimately show ?thesis
      by (simp add: emit_def Let_def loop a1)
  qed
  show ?thesis
    using em ap er nxt by blast
qed

theorem eruption_start_emits_nothing_witness:
  "\<not> isActive initial_eruption \<and> cooldown initial_eruption = 0 \<and> (0 :: real) < ERUPTION_CHANCE
   \<and> wf_pool initial_pool \<and> activeParticles initial_pool < MAX_PARTICLES \<and> (0 :: real) < 0.8
   \<and> emit (ioPosition 0) (\<lambda>_. 0) (initial_pool, initial_eruption)
       = (initial_pool, initial_eruption\<lparr>isActive := True, countdown := ERUPTION_DURATION\<rparr>, 1)
   \<and> activeParticles (fst (tick (ioPosition 0) (Fin 0) (\<lambda>_. 0) (initial_pool, initial_eruption)))
       = activeParticles initial_pool
   \<and> colors (fst (emit (ioPosition 1) (\<lambda>_. 0)
        (initial_pool, initial_eruption\<lparr>isActive := True, countdown := ERUPTION_DURATION\<rparr>)))
       ! activeParticles initial_pool = froundV (Vector3 (Fin 1.0) (Fin 0.7) (Fin 0.3))"
  using eruption_start_emits_nothing [where e = initial_eruption and r = "\<lambda>_. 0"
      and io = "ioPosition 0" and p = initial_pool and rot = "Fin 0" and q = initial_pool
      and r' = "\<lambda>_. 0" and io' = "ioPosition 1"]
  by (simp add: initial_eruption_def ERUPTION_CHANCE_def wf_pool_def initial_pool_def
      MAX_PARTICLES_def)

section \<open>Finite numbers and vectors\<close>

lemma sum_squares_not_neg [simp]: "\<not> (a * a + b * b + c * c < (0 :: real))"
  by (simp add: not_less)

lemma isFinite_iff: "isFinite a \<longleftrightarrow> (\<exists>x. a = Fin x)"
  by (cases a) simp_all

lemma finiteV_iff: "finiteV v \<longleftrightarrow> (\<exists>a b c. v = Vector3 (Fin a) (Fin b) (Fin c))"
  by (cases v) (auto simp add: finiteV_def isFinite_iff)

lemma finiteV_zeroV [simp]: "finiteV zeroV"
  by (simp add: finiteV_def zeroV_def)

lemma finiteV_vadd: "finiteV a \<Longrightarrow> finiteV b \<Longrightarrow> finiteV (vadd a b)"
  by (auto simp add: finiteV_iff vadd_def)

lemma finiteV_jitter: "finiteV io \<Longrightarrow> finiteV (jitter io spread r k)"
  by (auto simp add: finiteV_iff jitter_def)

lemma finiteV_ioPosition [simp]: "finiteV (ioPosition a)"
  by (simp add: finiteV_def ioPosition_def)

text \<open>After the speed limit a velocity is finite or its length is NaN: an infinite
  component makes the length infinite and the factor \<open>0.2 / \<infinity> = 0\<close>, and
  \<open>\<infinity> * 0\<close> is NaN.\<close>

lemma limitSpeed_finite:
  assumes "\<not> isNaN (vlength (limitSpeed v))"
  shows "finiteV (limitSpeed v)"
proof (cases v)
  case (Vector3 a b c)
  with assms show ?thesis
    by (cases a; cases b; cases c)
      (simp_all add: limitSpeed_def vlength_def multiplyScalar_def finiteV_def jgt_def
        inf_times_def Let_def split: if_splits)
qed

text \<open>A position that passes the NaN guard and the distance guard is finite.\<close>

lemma guards_finite:
  assumes "\<not> hasNaN v"
    and "\<not> (jgt (vlength v) (Fin MAX_DISTANCE) \<or> jlt (vlength v) (Fin MIN_DISTANCE))"
  shows "finiteV v"
proof (cases v)
  case (Vector3 a b c)
  with assms show ?thesis
    by (cases a; cases b; cases c)
      (simp_all add: hasNaN_def vlength_def finiteV_def jgt_def)
qed

lemma ionizationColor_ok:
  assumes "finiteV io" and "finiteV position"
  shows "color_ok (ionizationColor io position)"
proof -
  from assms obtain a b c x y z
    where io: "io = Vector3 (Fin a) (Fin b) (Fin c)"
      and p: "position = Vector3 (Fin x) (Fin y) (Fin z)"
    by (auto simp add: finiteV_iff)
  define d where "d = sqrt ((x + - a) * (x + - a) + (y + - b) * (y + - b) + (z + - c) * (z + - c))"
  have d0: "0 \<le> d" by (simp add: d_def)
  have len: "vlength (vsub position io) = Fin d"
    by (simp add: io p vlength_def vsub_def jsub_def d_def)
  show ?thesis
    using d0
    by (simp add: ionizationColor_def Let_def len Math_min_def Math_max_def jsub_def color_ok_def)
qed

section \<open>Bounds\<close>

lemma abs_le_norm3:
  "\<bar>a\<bar> \<le> sqrt (a * a + b * b + c * c) \<and> \<bar>b\<bar> \<le> sqrt (a * a + b * b + c * c)
    \<and> \<bar>c\<bar> \<le> sqrt (a * a + b * b + c * c)"
proof -
  have "sqrt (a * a) \<le> sqrt (a * a + b * b + c * c)"
    "sqrt (b * b) \<le> sqrt (a * a + b * b + c * c)"
    "sqrt (c * c) \<le> sqrt (a * a + b * b + c * c)"
    by (rule real_sqrt_le_mono, simp)+
  then show ?thesis by simp
qed

lemma magnitude_le_iff: "magnitude_le b a \<longleftrightarrow> (\<exists>x. a = Fin x \<and> \<bar>x\<bar> \<le> b)"
  by (cases a) simp_all

lemma magnitude_leV_iff:
  "magnitude_leV b v \<longleftrightarrow>
    (\<exists>x y z. v = Vector3 (Fin x) (Fin y) (Fin z) \<and> \<bar>x\<bar> \<le> b \<and> \<bar>y\<bar> \<le> b \<and> \<bar>z\<bar> \<le> b)"
  by (cases v) (auto simp add: magnitude_leV_def magnitude_le_iff)

lemma magnitude_leV_finite: "magnitude_leV b v \<Longrightarrow> finiteV v"
  by (auto simp add: magnitude_leV_iff finiteV_def)

lemma magnitude_leV_mono: "magnitude_leV a v \<Longrightarrow> a \<le> b \<Longrightarrow> magnitude_leV b v"
  by (auto simp add: magnitude_leV_iff)

lemma magnitude_leV_zeroV [simp]: "0 \<le> b \<Longrightarrow> magnitude_leV b zeroV"
  by (simp add: magnitude_leV_def zeroV_def)

lemma magnitude_leV_vadd:
  "magnitude_leV a u \<Longrightarrow> magnitude_leV b v \<Longrightarrow> magnitude_leV (a + b) (vadd u v)"
  by (auto simp add: magnitude_leV_iff vadd_def)

lemma magnitude_leV_jitter:
  assumes "magnitude_leV b io" and "unit_draws r" and "0 \<le> spread"
  shows "magnitude_leV (b + spread / 2) (jitter io spread r k)"
proof -
  have "\<bar>(r j - 0.5) * spread\<bar> \<le> spread / 2" for j
  proof -
    have "0 \<le> r j" "r j < 1"
      using assms(2) by (simp_all add: unit_draws_def)
    then have "\<bar>r j - 0.5\<bar> \<le> 1 / 2"
      by (auto simp add: abs_if)
    then have "\<bar>r j - 0.5\<bar> * spread \<le> (1 / 2) * spread"
      using assms(3) by (rule mult_right_mono)
    then show ?thesis using assms(3) by (simp add: abs_mult)
  qed
  then have "\<bar>x + (r j - 0.5) * spread\<bar> \<le> b + spread / 2" if "\<bar>x\<bar> \<le> b" for x j
    using that abs_triangle_ineq [of x "(r j - 0.5) * spread"] by (meson add_mono order_trans)
  with assms(1) show ?thesis
    by (auto simp add: magnitude_leV_iff jitter_def)
qed

text \<open>A vector of bounded magnitude is stored as a finite vector.\<close>

lemma froundV_finite:
  assumes "magnitude_leV b v" and "b < 2 ^ 128 - 2 ^ 103"
  shows "finiteV (froundV v)"
proof -
  from assms obtain x y z where v: "v = Vector3 (Fin x) (Fin y) (Fin z)"
    and "\<bar>x\<bar> < 2 ^ 128 - 2 ^ 103" "\<bar>y\<bar> < 2 ^ 128 - 2 ^ 103" "\<bar>z\<bar> < 2 ^ 128 - 2 ^ 103"
    by (auto simp add: magnitude_leV_iff)
  then show ?thesis
    using float32_finite [of x] float32_finite [of y] float32_finite [of z]
    by (auto simp add: froundV_def finiteV_def)
qed

lemma froundV_color_ok:
  assumes "color_ok c"
  shows "color_ok (froundV c)"
proof -
  from assms obtain x y z where c: "c = Vector3 (Fin x) (Fin y) (Fin z)"
    and "0 \<le> x \<and> x \<le> 1" "0 \<le> y \<and> y \<le> 1" "0 \<le> z \<and> z \<le> 1"
    by (cases c; cases "vx c"; cases "vy c"; cases "vz c") (auto simp add: color_ok_def)
  then show ?thesis
    using float32_unit [of x] float32_unit [of y] float32_unit [of z]
    by (auto simp add: froundV_def color_ok_def)
qed

text \<open>After the speed limit a velocity whose length is not NaN has no component above
  \<open>0.2\<close> in magnitude.\<close>

lemma scaled_component_le:
  assumes "0 < n" and "\<bar>x\<bar> \<le> n" and "0 \<le> c"
  shows "\<bar>x * (c / n)\<bar> \<le> (c :: real)"
proof -
  have "\<bar>x * (c / n)\<bar> = \<bar>x\<bar> * (c / n)"
    using assms by (simp add: abs_mult)
  also have "\<dots> \<le> n * (c / n)"
    using assms by (intro mult_right_mono) simp_all
  also have "\<dots> = c" using assms by simp
  finally show ?thesis .
qed

lemma limitSpeed_bounded:
  assumes "\<not> isNaN (vlength (limitSpeed v))"
  shows "magnitude_leV 0.2 (limitSpeed v)"
proof -
  from limitSpeed_finite [OF assms] have fin: "finiteV (limitSpeed v)" .
  show ?thesis
  proof (cases v)
    case (Vector3 p q s)
    show ?thesis
    proof (cases p; cases q; cases s)
      fix x y z
      assume f: "p = Fin x" "q = Fin y" "s = Fin z"
      define n where "n = sqrt (x * x + y * y + z * z)"
      have len: "vlength (Vector3 (Fin x) (Fin y) (Fin z)) = Fin n"
        by (simp add: vlength_def n_def)
      have le: "\<bar>x\<bar> \<le> n" "\<bar>y\<bar> \<le> n" "\<bar>z\<bar> \<le> n"
        using abs_le_norm3 [of x y z] by (simp_all add: n_def)
      show ?thesis
      proof (cases "0.2 < n")
        case True
        then have n0: "0 < n" "n \<noteq> 0" by auto
        with True have "limitSpeed v = Vector3 (Fin (x * (0.2 / n))) (Fin (y * (0.2 / n))) (Fin (z * (0.2 / n)))"
          by (simp add: limitSpeed_def len jgt_def Let_def Vector3 f multiplyScalar_def)
        then show ?thesis
          using scaled_component_le [OF n0(1) le(1), of "0.2"]
            scaled_component_le [OF n0(1) le(2), of "0.2"]
            scaled_component_le [OF n0(1) le(3), of "0.2"]
          by (simp add: magnitude_leV_def)
      next
        case False
        then have "limitSpeed v = Vector3 (Fin x) (Fin y) (Fin z)"
          by (simp add: limitSpeed_def len jgt_def Let_def Vector3 f)
        with le False show ?thesis by (simp add: magnitude_leV_def)
      qed
    qed (use fin Vector3 in \<open>simp_all add: limitSpeed_def vlength_def multiplyScalar_def
        jgt_def inf_times_def finiteV_def Let_def split: if_splits\<close>)
  qed
qed

text \<open>A position that passes the NaN guard and the distance guard has no component
  above \<open>MAX_DISTANCE\<close> in magnitude.\<close>

lemma guards_bounded:
  assumes "\<not> hasNaN v"
    and "\<not> (jgt (vlength v) (Fin MAX_DISTANCE) \<or> jlt (vlength v) (Fin MIN_DISTANCE))"
  shows "magnitude_leV MAX_DISTANCE v"
proof -
  from guards_finite [OF assms] obtain a b c where v: "v = Vector3 (Fin a) (Fin b) (Fin c)"
    by (auto simp add: finiteV_iff)
  from assms(2) have "sqrt (a * a + b * b + c * c) \<le> MAX_DISTANCE"
    by (simp add: v vlength_def jgt_def)
  then show ?thesis
    using abs_le_norm3 [of a b c] by (simp add: v magnitude_leV_def)
qed

section \<open>One slot of the integrator\<close>

lemma updateParticle_NaN:
  assumes "hasNaN position"
  shows "updateParticle io rot r k (position, vel, colour) = ((io, zeroV, None), k)"
  using assms by (auto simp add: updateParticle_def hasNaN_def)

lemma updateParticle_out_of_bounds:
  assumes "\<not> hasNaN position"
    and "jgt (vlength position) (Fin MAX_DISTANCE) \<or> jlt (vlength position) (Fin MIN_DISTANCE)"
  shows "updateParticle io rot r k (position, vel, colour) =
    ((jitter io 0.8 r k, zeroV, None), k + 3)"
  using assms by (auto simp add: updateParticle_def hasNaN_def Let_def)

lemma updateParticle_origin:
  "updateParticle io rot r k (zeroV, vel, colour) = ((jitter io 0.8 r k, zeroV, None), k + 3)"
  by (rule updateParticle_out_of_bounds)
    (simp_all add: hasNaN_def zeroV_def vlength_def MIN_DISTANCE_def)

text \<open>A position with an infinite component and no NaN is caught by the distance guard.\<close>

lemma updateParticle_infinite:
  assumes "\<not> finiteV position" and "\<not> hasNaN position"
  shows "updateParticle io rot r k (position, vel, colour) =
    ((jitter io 0.8 r k, zeroV, None), k + 3)"
proof (rule updateParticle_out_of_bounds [OF assms(2)], rule ccontr)
  assume "\<not> (jgt (vlength position) (Fin MAX_DISTANCE) \<or> jlt (vlength position) (Fin MIN_DISTANCE))"
  with assms(2) have "finiteV position" by (rule guards_finite)
  with assms(1) show False by simp
qed

text \<open>The three ways through the loop body.\<close>

lemma updateParticle_cases:
  obtains
    (reset) "fst (updateParticle io rot r k (position, vel, colour)) = (io, zeroV, None)"
  | (bounds) "fst (updateParticle io rot r k (position, vel, colour)) = (jitter io 0.8 r k, zeroV, None)"
  | (moved) velocity where "magnitude_leV MAX_DISTANCE position" and "magnitude_leV 0.2 velocity"
      and "fst (updateParticle io rot r k (position, vel, colour)) =
        (vadd position velocity, velocity,
         Some (ionizationColor io (froundV (vadd position velocity))))"
proof (cases "hasNaN position")
  case True
  then show ?thesis using reset by (simp add: updateParticle_NaN)
next
  case nonan: False
  show ?thesis
  proof (cases "jgt (vlength position) (Fin MAX_DISTANCE) \<or> jlt (vlength position) (Fin MIN_DISTANCE)")
    case True
    with nonan show ?thesis using bounds by (simp add: updateParticle_out_of_bounds)
  next
    case False
    define velocity where "velocity = limitSpeed (verticalContainment position
      (radialContainment position (vlength position)
        (corotationForce position (magneticForce rot position vel))))"
    have fp: "magnitude_leV MAX_DISTANCE position" using nonan False by (rule guards_bounded)
    show ?thesis
    proof (cases "isNaN (vlength velocity)")
      case True
      with nonan False have "fst (updateParticle io rot r k (position, vel, colour)) = (io, zeroV, None)"
        by (simp add: updateParticle_def hasNaN_def Let_def velocity_def)
      then show ?thesis by (rule reset)
    next
      case notnan: False
      then have fv: "magnitude_leV 0.2 velocity"
        unfolding velocity_def by (rule limitSpeed_bounded)
      from nonan False notnan
      have "fst (updateParticle io rot r k (position, vel, colour)) =
        (vadd position velocity, velocity,
         Some (ionizationColor io (froundV (vadd position velocity))))"
        by (simp add: updateParticle_def hasNaN_def Let_def velocity_def)
      with fp fv show ?thesis by (rule moved)
    qed
  qed
qed

text \<open>With Io in a range that single precision holds and draws in \<open>[0, 1)\<close>, what the
  loop body stores as position and velocity is finite.\<close>

lemma updateParticle_stored_finite:
  assumes "magnitude_leV (34 * 10 ^ 37) io" and "unit_draws r"
  shows "finiteV (fst (storedSlot (fst (updateParticle io rot r k s)) s))
    \<and> finiteV (fst (snd (storedSlot (fst (updateParticle io rot r k s)) s)))"
proof -
  obtain position vel colour where s: "s = (position, vel, colour)"
    by (cases s)
  have io: "finiteV (froundV io)"
    using assms(1) by (rule froundV_finite) simp
  have bnd: "(34 :: real) * 10 ^ 37 + 0.8 / 2 < 2 ^ 128 - 2 ^ 103" by simp
  have jit: "finiteV (froundV (jitter io 0.8 r k))"
    using magnitude_leV_jitter [OF assms, of "0.8" k]
    by (rule froundV_finite) (simp_all add: bnd)
  have "finiteV (fst (storedSlot (fst (updateParticle io rot r k (position, vel, colour))) s))
    \<and> finiteV (fst (snd (storedSlot (fst (updateParticle io rot r k (position, vel, colour))) s)))"
  proof (cases rule: updateParticle_cases [of io rot r k position vel colour])
    case reset
    then show ?thesis using io by (simp add: storedSlot_def)
  next
    case bounds
    then show ?thesis using jit by (simp add: storedSlot_def)
  next
    case (moved velocity)
    have "finiteV (froundV (vadd position velocity))"
      using magnitude_leV_vadd [OF moved(1,2)] by (rule froundV_finite) (simp add: MAX_DISTANCE_def)
    moreover have "finiteV (froundV velocity)"
      using moved(2) by (rule froundV_finite) simp
    ultimately show ?thesis using moved(3) by (simp add: storedSlot_def)
  qed
  then show ?thesis by (simp add: s)
qed

text \<open>With a finite position of Io, a colour in range stays in range.\<close>

lemma updateParticle_color_ok:
  assumes "finiteV io" and "color_ok (snd (snd s))"
  shows "color_ok (snd (snd (storedSlot (fst (updateParticle io rot r k s)) s)))"
proof -
  obtain position vel colour where s: "s = (position, vel, colour)"
    by (cases s)
  have c: "color_ok (snd (snd s))" using assms(2) .
  have "color_ok (snd (snd (storedSlot (fst (updateParticle io rot r k (position, vel, colour))) s)))"
  proof (cases rule: updateParticle_cases [of io rot r k position vel colour])
    case reset
    with c show ?thesis by (simp add: storedSlot_def)
  next
    case bounds
    with c show ?thesis by (simp add: storedSlot_def)
  next
    case (moved velocity)
    have "finiteV (froundV (vadd position velocity))"
      using magnitude_leV_vadd [OF moved(1,2)] by (rule froundV_finite) (simp add: MAX_DISTANCE_def)
    then have "color_ok (ionizationColor io (froundV (vadd position velocity)))"
      using assms(1) by (intro ionizationColor_ok)
    then show ?thesis using moved(3) by (simp add: storedSlot_def froundV_color_ok)
  qed
  then show ?thesis by (simp add: s)
qed

section \<open>The pass over the pool\<close>

lemma stepAt_result:
  assumes "updateParticle io rot r k (slotAt p i) = ((a, b, c), k')"
  shows "stepAt io rot r i (p, k) =
    (p\<lparr>positions := setAt (positions p) (int i) a,
       velocities := setAt (velocities p) (int i) b,
       colors := (case c of None \<Rightarrow> colors p | Some c' \<Rightarrow> setAt (colors p) (int i) c')\<rparr>, k')"
  by (simp add: stepAt_def assms)

lemma stepAt_wf:
  assumes "wf_pool (fst pk)"
  shows "wf_pool (fst (stepAt io rot r i pk))"
proof -
  obtain p k where pk: "pk = (p, k)" by (cases pk)
  obtain a b c k' where u: "updateParticle io rot r k (slotAt p i) = ((a, b, c), k')"
    by (metis prod.exhaust)
  show ?thesis
    using assms by (simp add: pk stepAt_result [OF u] wf_pool_def split: option.splits)
qed

lemma integrate_Suc:
  "integrate io rot r (Suc n) pk = stepAt io rot r n (integrate io rot r n pk)"
  by (simp add: integrate_def)

lemma integrate_wf: "wf_pool (fst pk) \<Longrightarrow> wf_pool (fst (integrate io rot r n pk))"
  by (induction n) (simp_all add: integrate_Suc stepAt_wf, simp add: integrate_def)

lemma slotAt_nth:
  "wf_pool p \<Longrightarrow> i < MAX_PARTICLES \<Longrightarrow>
   slotAt p i = (positions p ! i, velocities p ! i, colors p ! i)"
  by (simp add: slotAt_def wf_pool_def getAt_int)

text \<open>A step of the loop changes the slot it visits and no other; an index beyond the
  buffers changes nothing.\<close>

lemma stepAt_slot:
  assumes "wf_pool p" and "j < MAX_PARTICLES"
  shows "slotAt (fst (stepAt io rot r i (p, k))) j =
    (if j = i then storedSlot (fst (updateParticle io rot r k (slotAt p i))) (slotAt p i)
     else slotAt p j)"
proof -
  obtain a b c k' where u: "updateParticle io rot r k (slotAt p i) = ((a, b, c), k')"
    by (metis prod.exhaust)
  have "slotAt (fst (stepAt io rot r i (p, k))) j =
      (if j = i then storedSlot (a, b, c) (slotAt p i) else slotAt p j)"
    using assms
    by (auto simp add: stepAt_result [OF u] slotAt_def storedSlot_def wf_pool_def getAt_def
        setAt_def split: option.splits)
  then show ?thesis by (simp add: u)
qed

lemma integrate_slot:
  assumes "wf_pool p" and "j < MAX_PARTICLES"
  shows "\<exists>k'. slotAt (fst (integrate io rot r n (p, k))) j =
    (if j < n then storedSlot (fst (updateParticle io rot r k' (slotAt p j))) (slotAt p j)
     else slotAt p j)"
proof (induction n)
  case 0
  show ?case by (simp add: integrate_def)
next
  case (Suc n)
  obtain q m where q: "integrate io rot r n (p, k) = (q, m)"
    by (cases "integrate io rot r n (p, k)")
  have wfq: "wf_pool q"
    using integrate_wf [of "(p, k)" io rot r n] assms(1) q by simp
  from Suc obtain k' where ih: "slotAt q j =
    (if j < n then storedSlot (fst (updateParticle io rot r k' (slotAt p j))) (slotAt p j)
     else slotAt p j)"
    by (auto simp add: q)
  have step: "slotAt (fst (integrate io rot r (Suc n) (p, k))) j =
    (if j = n then storedSlot (fst (updateParticle io rot r m (slotAt q n))) (slotAt q n)
     else slotAt q j)"
    by (simp add: integrate_Suc q stepAt_slot [OF wfq assms(2)])
  show ?case
  proof (cases "j = n")
    case True
    with step ih show ?thesis by auto
  next
    case False
    with step ih show ?thesis by (cases "j < n") auto
  qed
qed

text \<open>The same on the three buffers.\<close>

lemma integrate_nth:
  assumes "wf_pool p" and "j < MAX_PARTICLES"
  shows "\<exists>k'. (positions (fst (integrate io rot r n (p, k))) ! j,
         velocities (fst (integrate io rot r n (p, k))) ! j,
         colors (fst (integrate io rot r n (p, k))) ! j) =
    (if j < n
     then storedSlot (fst (updateParticle io rot r k' (positions p ! j, velocities p ! j, colors p ! j)))
            (positions p ! j, velocities p ! j, colors p ! j)
     else (positions p ! j, velocities p ! j, colors p ! j))"
proof -
  have wf': "wf_pool (fst (integrate io rot r n (p, k)))"
    using integrate_wf [of "(p, k)" io rot r n] assms(1) by simp
  show ?thesis
    using integrate_slot [OF assms, of io rot r n k]
    unfolding slotAt_nth [OF wf' assms(2)] slotAt_nth [OF assms] .
qed

lemma tick_wf:
  assumes "wf_pool p"
  shows "wf_pool (fst (tick io rot r (p, e)))"
proof -
  obtain p1 e1 k1 where em: "emit io r (p, e) = (p1, e1, k1)"
    by (metis prod.exhaust)
  have "wf_pool p1" using emit_wf [OF assms, of io r e] em by simp
  then show ?thesis
    using integrate_wf [of "(p1, k1)" io rot r "max MAX_PARTICLES (activeParticles p)"]
    by (simp add: tick_def Let_def em)
qed

text \<open>After a frame every slot of the pool holds what the loop body stored on what
  emission left in that slot.\<close>

lemma tick_slot:
  assumes "wf_pool p" and "j < MAX_PARTICLES"
  shows "\<exists>k'. storedSlot (fst (updateParticle io rot r k' (slotAt (fst (emit io r (p, e))) j)))
      (slotAt (fst (emit io r (p, e))) j) =
    (positions (fst (tick io rot r (p, e))) ! j, velocities (fst (tick io rot r (p, e))) ! j,
     colors (fst (tick io rot r (p, e))) ! j)"
proof -
  obtain p1 e1 k1 where em: "emit io r (p, e) = (p1, e1, k1)"
    by (metis prod.exhaust)
  have wf1: "wf_pool p1" using emit_wf [OF assms(1), of io r e] em by simp
  have jn: "j < max MAX_PARTICLES (activeParticles p)"
    using assms(2) by simp
  have tk: "fst (tick io rot r (p, e)) =
      fst (integrate io rot r (max MAX_PARTICLES (activeParticles p)) (p1, k1))"
    by (simp add: tick_def Let_def em)
  obtain k' where "slotAt (fst (tick io rot r (p, e))) j =
      storedSlot (fst (updateParticle io rot r k' (slotAt p1 j))) (slotAt p1 j)"
    using integrate_slot [OF wf1 assms(2), of io rot r "max MAX_PARTICLES (activeParticles p)" k1]
    unfolding tk using jn by auto
  then show ?thesis
    using slotAt_nth [OF tick_wf [OF assms(1)] assms(2), of io rot r e]
    by (auto simp add: em)
qed

lemma tick_finite:
  assumes "wf_pool p" and "magnitude_leV (34 * 10 ^ 37) io" and "unit_draws r"
    and "i < MAX_PARTICLES"
  shows "finiteV (positions (fst (tick io rot r (p, e))) ! i)
    \<and> finiteV (velocities (fst (tick io rot r (p, e))) ! i)"
proof -
  obtain k' where eq: "storedSlot (fst (updateParticle io rot r k' (slotAt (fst (emit io r (p, e))) i)))
      (slotAt (fst (emit io r (p, e))) i) =
    (positions (fst (tick io rot r (p, e))) ! i, velocities (fst (tick io rot r (p, e))) ! i,
     colors (fst (tick io rot r (p, e))) ! i)"
    using tick_slot [OF assms(1,4)] by blast
  show ?thesis
    using updateParticle_stored_finite [OF assms(2,3), of rot k' "slotAt (fst (emit io r (p, e))) i"]
    by (simp add: eq)
qed

text \<open>A frame on the initial pool whose emission writes nothing: slot 0 is at the
  origin and the distance guard stores a jittered position there.\<close>

lemma tick_idle_slot:
  assumes "fst (emit io r (initial_pool, initial_eruption)) = initial_pool"
  shows "\<exists>m. positions (fst (tick io rot r (initial_pool, initial_eruption))) ! 0
    = froundV (jitter io 0.8 r m)"
proof -
  have wf: "wf_pool initial_pool"
    by (simp add: wf_pool_def initial_pool_def)
  have i0: "0 < MAX_PARTICLES" by (simp add: MAX_PARTICLES_def)
  have s0: "slotAt initial_pool 0 = (zeroV, zeroV, froundV (Vector3 (Fin 1.0) (Fin 0.5) (Fin 0.2)))"
    by (simp add: slotAt_nth [OF wf i0]) (simp add: initial_pool_def MAX_PARTICLES_def)
  obtain k' where "storedSlot (fst (updateParticle io rot r k' (slotAt initial_pool 0)))
      (slotAt initial_pool 0) =
    (positions (fst (tick io rot r (initial_pool, initial_eruption))) ! 0,
     velocities (fst (tick io rot r (initial_pool, initial_eruption))) ! 0,
     colors (fst (tick io rot r (initial_pool, initial_eruption))) ! 0)"
    using tick_slot [OF wf i0, of io rot r initial_eruption] unfolding assms by blast
  then have "positions (fst (tick io rot r (initial_pool, initial_eruption))) ! 0
      = froundV (jitter io 0.8 r k')"
    by (simp add: s0 updateParticle_origin storedSlot_def)
  then show ?thesis by blast
qed

lemma float32_huge: "float32 (10 ^ 39 - 0.4) = PInf"
  by (rule float32_overflow) simp

lemma float32_huge_draw: "float32 (12 + (10 ^ 40 - 0.5) * 0.8) = PInf"
  by (rule float32_overflow) simp

text \<open>
  Claim C6 as stated fails for a finite position of Io that single precision cannot
  hold.  With Io at \<open>(12, 10\<^sup>3\<^sup>9, 0)\<close> and draws 0 on the initial pool, slot 0 is at the
  origin, the distance guard resets it to \<open>(11.6, 10\<^sup>3\<^sup>9 - 0.4, -0.4)\<close>, and the store
  of line 455 turns the second coordinate into \<open>Infinity\<close>.  It fails as well for finite
  draws outside \<open>[0, 1)\<close>: with Io at \<open>(12, 0, 0)\<close> and draws \<open>10\<^sup>4\<^sup>0\<close> the emission writes
  nothing and the store of line 453 turns the first coordinate of slot 0 into
  \<open>Infinity\<close>.
\<close>

theorem float32_overflow_counterexample:
  "finiteV (Vector3 (Fin 12) (Fin (10 ^ 39)) (Fin 0))
   \<and> \<not> finiteV (positions (fst (tick (Vector3 (Fin 12) (Fin (10 ^ 39)) (Fin 0)) (Fin 0) (\<lambda>_. 0)
        (initial_pool, initial_eruption))) ! 0)
   \<and> finiteV (Vector3 (Fin 12) (Fin 0) (Fin 0))
   \<and> \<not> finiteV (positions (fst (tick (Vector3 (Fin 12) (Fin 0) (Fin 0)) (Fin 0) (\<lambda>_. 10 ^ 40)
        (initial_pool, initial_eruption))) ! 0)"
proof -
  define io where "io = Vector3 (Fin 12) (Fin (10 ^ 39)) (Fin 0)"
  define r :: rng where "r = (\<lambda>_. 0)"
  define io' where "io' = Vector3 (Fin 12) (Fin 0) (Fin 0)"
  define r' :: rng where "r' = (\<lambda>_. 10 ^ 40)"
  have em: "fst (emit io r (initial_pool, initial_eruption)) = initial_pool"
    by (simp add: emit_def Let_def initial_eruption_def ERUPTION_CHANCE_def r_def)
  have em': "fst (emit io' r' (initial_pool, initial_eruption)) = initial_pool"
    by (simp add: emit_def Let_def initial_eruption_def ERUPTION_CHANCE_def
        BASE_EMISSION_RATE_def r'_def)
  have j: "vy (froundV (jitter io 0.8 r m)) = PInf" for m
    using float32_huge by (simp add: jitter_def io_def r_def froundV_def)
  have j': "vx (froundV (jitter io' 0.8 r' m)) = PInf" for m
    using float32_huge_draw by (simp add: jitter_def io'_def r'_def froundV_def)
  obtain m where "positions (fst (tick io (Fin 0) r (initial_pool, initial_eruption))) ! 0
      = froundV (jitter io 0.8 r m)"
    using tick_idle_slot [OF em] by blast
  then have a: "\<not> finiteV (positions (fst (tick io (Fin 0) r (initial_pool, initial_eruption))) ! 0)"
    using j [of m] by (simp add: finiteV_def)
  obtain m' where "positions (fst (tick io' (Fin 0) r' (initial_pool, initial_eruption))) ! 0
      = froundV (jitter io' 0.8 r' m')"
    using tick_idle_slot [OF em'] by blast
  then have b: "\<not> finiteV (positions (fst (tick io' (Fin 0) r' (initial_pool, initial_eruption))) ! 0)"
    using j' [of m'] by (simp add: finiteV_def)
  from a b show ?thesis
    unfolding io_def r_def io'_def r'_def by (simp add: finiteV_def)
qed

text \<open>
  Claim C6, amended.  Whatever the pool holds before the frame (NaN and infinities
  included), whatever the eruption state and the rotation angle: when the buffers have
  their \<open>MAX_PARTICLES\<close> slots, the coordinates of Io are at most \<open>3.4 \<times> 10\<^sup>3\<^sup>8\<close> in magnitude
  and the draws are in \<open>[0, 1)\<close>, every slot has a finite position and a finite
  velocity after the frame.
\<close>

theorem finite_after_tick:
  assumes "wf_pool p" and "magnitude_leV (34 * 10 ^ 37) io" and "unit_draws r"
    and "i < MAX_PARTICLES"
  shows "finiteV (positions (fst (tick io rot r (p, e))) ! i)
    \<and> finiteV (velocities (fst (tick io rot r (p, e))) ! i)"
  using assms by (rule tick_finite)

theorem finite_after_tick_witness:
  "wf_pool (initial_pool\<lparr>positions := (positions initial_pool)[0 := Vector3 (Fin 10) (Fin 1) (Fin 0)],
        velocities := (velocities initial_pool)[0 := Vector3 (Fin 0.1) NaN NInf]\<rparr>)
   \<and> magnitude_leV (34 * 10 ^ 37) (Vector3 (Fin 12) (Fin 0) (Fin 0))
   \<and> unit_draws (\<lambda>_. 0.5) \<and> 0 < MAX_PARTICLES
   \<and> finiteV (positions (fst (tick (Vector3 (Fin 12) (Fin 0) (Fin 0)) (Fin 0.002) (\<lambda>_. 0.5)
        (initial_pool\<lparr>positions := (positions initial_pool)[0 := Vector3 (Fin 10) (Fin 1) (Fin 0)],
           velocities := (velocities initial_pool)[0 := Vector3 (Fin 0.1) NaN NInf]\<rparr>,
         initial_eruption))) ! 0)
   \<and> finiteV (velocities (fst (tick (Vector3 (Fin 12) (Fin 0) (Fin 0)) (Fin 0.002) (\<lambda>_. 0.5)
        (initial_pool\<lparr>positions := (positions initial_pool)[0 := Vector3 (Fin 10) (Fin 1) (Fin 0)],
           velocities := (velocities initial_pool)[0 := Vector3 (Fin 0.1) NaN NInf]\<rparr>,
         initial_eruption))) ! 0)"
proof -
  have h: "wf_pool (initial_pool\<lparr>positions := (positions initial_pool)[0 := Vector3 (Fin 10) (Fin 1) (Fin 0)],
        velocities := (velocities initial_pool)[0 := Vector3 (Fin 0.1) NaN NInf]\<rparr>)"
    "magnitude_leV (34 * 10 ^ 37) (Vector3 (Fin 12) (Fin 0) (Fin 0))"
    "unit_draws (\<lambda>_. 0.5)" "0 < MAX_PARTICLES"
    by (simp_all add: wf_pool_def initial_pool_def MAX_PARTICLES_def magnitude_leV_def unit_draws_def)
  from finite_after_tick [OF h, of "Fin 0.002" initial_eruption] h show ?thesis by blast
qed

text \<open>In the program Io is on its orbit, of radius 12.\<close>

lemma magnitude_leV_ioPosition: "magnitude_leV 12 (ioPosition a)"
proof -
  have "\<bar>12 * cos t\<bar> \<le> 12" "\<bar>12 * sin t\<bar> \<le> 12" for t :: real
    by (simp_all add: abs_mult)
  then show ?thesis
    by (simp add: magnitude_leV_def ioPosition_def IO_ORBIT_RADIUS_def)
qed

lemma animate_finite:
  assumes "wf_pool (psys s)" and "unit_draws r" and "i < MAX_PARTICLES"
  shows "finiteV (positions (psys (animate r s)) ! i)
    \<and> finiteV (velocities (psys (animate r s)) ! i)"
proof -
  have "magnitude_leV (34 * 10 ^ 37) (ioPosition (angle s))"
    using magnitude_leV_ioPosition by (rule magnitude_leV_mono) simp
  with assms show ?thesis
    by (simp add: animate_def Let_def tick_finite)
qed

section \<open>The guards of the integrator\<close>

text \<open>
  Claim C7 as stated fails in two ways.  A slot with an infinite component and no
  NaN passes \<^verbatim>\<open>isNaN\<close> and is reset by the distance guard to a jittered position: with
  Io at \<open>(12, 0, 0)\<close> and draws 0, a slot at \<open>(\<infinity>, 0, 0)\<close> holds \<open>(11.6, -0.4, -0.4)\<close> as
  stored after the pass, not the position of Io.  And the position a slot with a NaN
  component is reset to is the position of Io narrowed by the store: with Io at
  \<open>(0.1, 0, 0)\<close> the slot does not hold \<open>(0.1, 0, 0)\<close>, which single precision has not.
\<close>

theorem nonfinite_position_counterexample:
  "\<not> finiteV (Vector3 PInf (Fin 0) (Fin 0))
   \<and> positions (fst (integrate (Vector3 (Fin 12) (Fin 0) (Fin 0)) (Fin 0) (\<lambda>_. 0) MAX_PARTICLES
        (initial_pool\<lparr>positions := (positions initial_pool)[0 := Vector3 PInf (Fin 0) (Fin 0)]\<rparr>, 0))) ! 0
     \<noteq> Vector3 (Fin 12) (Fin 0) (Fin 0)
   \<and> \<not> finiteV (Vector3 NaN (Fin 0) (Fin 0))
   \<and> positions (fst (integrate (Vector3 (Fin (1 / 10)) (Fin 0) (Fin 0)) (Fin 0) (\<lambda>_. 0) MAX_PARTICLES
        (initial_pool\<lparr>positions := (positions initial_pool)[0 := Vector3 NaN (Fin 0) (Fin 0)]\<rparr>, 0))) ! 0
     \<noteq> Vector3 (Fin (1 / 10)) (Fin 0) (Fin 0)"
proof -
  define r :: rng where "r = (\<lambda>_. 0)"
  define pa where "pa = initial_pool\<lparr>positions := (positions initial_pool)[0 := Vector3 PInf (Fin 0) (Fin 0)]\<rparr>"
  define pb where "pb = initial_pool\<lparr>positions := (positions initial_pool)[0 := Vector3 NaN (Fin 0) (Fin 0)]\<rparr>"
  define ioa where "ioa = Vector3 (Fin 12) (Fin 0) (Fin 0)"
  define iob where "iob = Vector3 (Fin (1 / 10)) (Fin 0) (Fin 0)"
  have wfa: "wf_pool pa" and wfb: "wf_pool pb"
    by (simp_all add: wf_pool_def initial_pool_def pa_def pb_def)
  have i0: "0 < MAX_PARTICLES" by (simp add: MAX_PARTICLES_def)
  have a0: "positions pa ! 0 = Vector3 PInf (Fin 0) (Fin 0)"
    and b0: "positions pb ! 0 = Vector3 NaN (Fin 0) (Fin 0)"
    by (simp_all add: pa_def pb_def initial_pool_def MAX_PARTICLES_def)
  have ua: "updateParticle ioa (Fin 0) r m (Vector3 PInf (Fin 0) (Fin 0), v, c)
      = ((jitter ioa 0.8 r m, zeroV, None), m + 3)" for m v c
    by (rule updateParticle_infinite) (simp_all add: finiteV_def hasNaN_def)
  have ub: "updateParticle iob (Fin 0) r m (Vector3 NaN (Fin 0) (Fin 0), v, c)
      = ((iob, zeroV, None), m)" for m v c
    by (rule updateParticle_NaN) (simp add: hasNaN_def)
  have "float32 (- 0.4) \<noteq> Fin 0"
    by (rule float32_nonzero) simp
  then have ja: "froundV (jitter ioa 0.8 r m) \<noteq> ioa" for m
    by (simp add: jitter_def ioa_def r_def froundV_def)
  have jb: "froundV iob \<noteq> iob"
    using float32_tenth by (simp add: iob_def froundV_def)
  obtain m where "(positions (fst (integrate ioa (Fin 0) r MAX_PARTICLES (pa, 0))) ! 0,
      velocities (fst (integrate ioa (Fin 0) r MAX_PARTICLES (pa, 0))) ! 0,
      colors (fst (integrate ioa (Fin 0) r MAX_PARTICLES (pa, 0))) ! 0)
    = (if 0 < MAX_PARTICLES
       then storedSlot (fst (updateParticle ioa (Fin 0) r m
              (positions pa ! 0, velocities pa ! 0, colors pa ! 0)))
            (positions pa ! 0, velocities pa ! 0, colors pa ! 0)
       else (positions pa ! 0, velocities pa ! 0, colors pa ! 0))"
    using integrate_nth [OF wfa i0, of ioa "Fin 0" r MAX_PARTICLES 0] by blast
  then have "positions (fst (integrate ioa (Fin 0) r MAX_PARTICLES (pa, 0))) ! 0
      = froundV (jitter ioa 0.8 r m)"
    using i0 by (simp add: a0 ua storedSlot_def)
  with ja have a: "positions (fst (integrate ioa (Fin 0) r MAX_PARTICLES (pa, 0))) ! 0 \<noteq> ioa"
    by simp
  obtain n where "(positions (fst (integrate iob (Fin 0) r MAX_PARTICLES (pb, 0))) ! 0,
      velocities (fst (integrate iob (Fin 0) r MAX_PARTICLES (pb, 0))) ! 0,
      colors (fst (integrate iob (Fin 0) r MAX_PARTICLES (pb, 0))) ! 0)
    = (if 0 < MAX_PARTICLES
       then storedSlot (fst (updateParticle iob (Fin 0) r n
              (positions pb ! 0, velocities pb ! 0, colors pb ! 0)))
            (positions pb ! 0, velocities pb ! 0, colors pb ! 0)
       else (positions pb ! 0, velocities pb ! 0, colors pb ! 0))"
    using integrate_nth [OF wfb i0, of iob "Fin 0" r MAX_PARTICLES 0] by blast
  then have "positions (fst (integrate iob (Fin 0) r MAX_PARTICLES (pb, 0))) ! 0 = froundV iob"
    using i0 by (simp add: b0 ub storedSlot_def)
  with jb have b: "positions (fst (integrate iob (Fin 0) r MAX_PARTICLES (pb, 0))) ! 0 \<noteq> iob"
    by simp
  from a b show ?thesis
    unfolding pa_def pb_def ioa_def iob_def r_def by (simp add: finiteV_def)
qed

text \<open>
  Claim C7, amended: for every slot whose position has a component that is not finite
  (NaN or an infinity) at the start of the pass.  The loop body computes no force and
  no new position from the slot: it stores velocity zero, stores no colour, and stores
  as position that of Io, without a draw, when a component is NaN, and a jittered
  position near Io, with three draws, when none is.  After a pass over the whole pool
  the slot holds velocity zero, its old colour, and that position as narrowed to
  single precision by the store.
\<close>

theorem nonfinite_slot_is_reset:
  assumes "wf_pool p" and "i < MAX_PARTICLES" and "\<not> finiteV (positions p ! i)"
    and "MAX_PARTICLES \<le> n"
  shows "updateParticle io rot r k' (positions p ! i, velocities p ! i, colors p ! i)
      = (if hasNaN (positions p ! i) then ((io, zeroV, None), k')
         else ((jitter io 0.8 r k', zeroV, None), k' + 3))
    \<and> velocities (fst (integrate io rot r n (p, k))) ! i = zeroV
    \<and> colors (fst (integrate io rot r n (p, k))) ! i = colors p ! i
    \<and> (if hasNaN (positions p ! i)
        then positions (fst (integrate io rot r n (p, k))) ! i = froundV io
        else \<exists>m. positions (fst (integrate io rot r n (p, k))) ! i = froundV (jitter io 0.8 r m))"
proof -
  have u: "updateParticle io rot r m (positions p ! i, velocities p ! i, colors p ! i)
      = (if hasNaN (positions p ! i) then ((io, zeroV, None), m)
         else ((jitter io 0.8 r m, zeroV, None), m + 3))" for m
    using assms(3) by (simp add: updateParticle_NaN updateParticle_infinite)
  have "i < n" using assms(2,4) by simp
  then obtain m where m: "(positions (fst (integrate io rot r n (p, k))) ! i,
         velocities (fst (integrate io rot r n (p, k))) ! i,
         colors (fst (integrate io rot r n (p, k))) ! i) =
     storedSlot (fst (updateParticle io rot r m (positions p ! i, velocities p ! i, colors p ! i)))
            (positions p ! i, velocities p ! i, colors p ! i)"
    using integrate_nth [OF assms(1,2), of io rot r n k] by auto
  show ?thesis
  proof (cases "hasNaN (positions p ! i)")
    case True
    with m u [of m] u [of k'] show ?thesis by (simp add: storedSlot_def)
  next
    case False
    with m u [of m] have "positions (fst (integrate io rot r n (p, k))) ! i = froundV (jitter io 0.8 r m)"
      and "velocities (fst (integrate io rot r n (p, k))) ! i = zeroV"
      and "colors (fst (integrate io rot r n (p, k))) ! i = colors p ! i"
      by (simp_all add: storedSlot_def)
    with False u [of k'] show ?thesis by auto
  qed
qed

theorem nonfinite_slot_is_reset_witness:
  "wf_pool (initial_pool\<lparr>positions := (positions initial_pool)[0 := Vector3 NaN (Fin 0) (Fin 0)]\<rparr>)
   \<and> 0 < MAX_PARTICLES
   \<and> \<not> finiteV (positions (initial_pool\<lparr>positions := (positions initial_pool)[0 := Vector3 NaN (Fin 0) (Fin 0)]\<rparr>) ! 0)
   \<and> MAX_PARTICLES \<le> MAX_PARTICLES
   \<and> velocities (fst (integrate (ioPosition 0) (Fin 0) (\<lambda>_. 0) MAX_PARTICLES
        (initial_pool\<lparr>positions := (positions initial_pool)[0 := Vector3 NaN (Fin 0) (Fin 0)]\<rparr>, 0))) ! 0
       = zeroV
   \<and> positions (fst (integrate (ioPosition 0) (Fin 0) (\<lambda>_. 0) MAX_PARTICLES
        (initial_pool\<lparr>positions := (positions initial_pool)[0 := Vector3 NaN (Fin 0) (Fin 0)]\<rparr>, 0))) ! 0
       = froundV (ioPosition 0)
   \<and> wf_pool (initial_pool\<lparr>positions := (positions initial_pool)[0 := Vector3 (Fin 0) NInf (Fin 0)]\<rparr>)
   \<and> \<not> finiteV (positions (initial_pool\<lparr>positions := (positions initial_pool)[0 := Vector3 (Fin 0) NInf (Fin 0)]\<rparr>) ! 0)
   \<and> velocities (fst (integrate (ioPosition 0) (Fin 0) (\<lambda>_. 0) MAX_PARTICLES
        (initial_pool\<lparr>positions := (positions initial_pool)[0 := Vector3 (Fin 0) NInf (Fin 0)]\<rparr>, 0))) ! 0
       = zeroV
   \<and> (\<exists>m. positions (fst (integrate (ioPosition 0) (Fin 0) (\<lambda>_. 0) MAX_PARTICLES
        (initial_pool\<lparr>positions := (positions initial_pool)[0 := Vector3 (Fin 0) NInf (Fin 0)]\<rparr>, 0))) ! 0
       = froundV (jitter (ioPosition 0) 0.8 (\<lambda>_. 0) m))"
  using nonfinite_slot_is_reset [where i = 0 and n = MAX_PARTICLES and io = "ioPosition 0"
      and rot = "Fin 0" and r = "\<lambda>_. 0" and k = 0 and k' = 0
      and p = "initial_pool\<lparr>positions := (positions initial_pool)[0 := Vector3 NaN (Fin 0) (Fin 0)]\<rparr>"]
    nonfinite_slot_is_reset [where i = 0 and n = MAX_PARTICLES and io = "ioPosition 0"
      and rot = "Fin 0" and r = "\<lambda>_. 0" and k = 0 and k' = 0
      and p = "initial_pool\<lparr>positions := (positions initial_pool)[0 := Vector3 (Fin 0) NInf (Fin 0)]\<rparr>"]
  by (simp add: wf_pool_def initial_pool_def MAX_PARTICLES_def hasNaN_def finiteV_def)

section \<open>Slots that the emitter has not written\<close>

text \<open>Io is on a circle of radius 12 around the origin, so one of its coordinates is at
  least 6 in magnitude, and a jittered position near Io is not stored as the origin.\<close>

lemma cos_or_sin_half:
  fixes t :: real
  shows "1 / 2 \<le> \<bar>cos t\<bar> \<or> 1 / 2 \<le> \<bar>sin t\<bar>"
proof (rule ccontr)
  assume "\<not> (1 / 2 \<le> \<bar>cos t\<bar> \<or> 1 / 2 \<le> \<bar>sin t\<bar>)"
  then have c: "\<bar>cos t\<bar> < 1 / 2" and s: "\<bar>sin t\<bar> < 1 / 2" by simp_all
  have "\<bar>cos t\<bar> ^ 2 < (1 / 2) ^ 2" using c by (intro power_strict_mono) simp_all
  moreover have "\<bar>sin t\<bar> ^ 2 < (1 / 2) ^ 2" using s by (intro power_strict_mono) simp_all
  ultimately have "(cos t)\<^sup>2 + (sin t)\<^sup>2 < 1 / 4 + 1 / 4"
    by (intro add_strict_mono) (simp_all add: power2_eq_square)
  then show False by (simp only: sin_cos_squared_add2)
qed

lemma float32_far_from_zero:
  assumes "6 \<le> \<bar>c\<bar>" and "0 \<le> u" and "u < 1"
  shows "float32 (c + (u - 0.5) * 0.8) \<noteq> Fin 0"
proof (rule float32_nonzero)
  define d where "d = (u - 1 / 2) * (4 / 5)"
  have "d \<le> (1 - 1 / 2) * (4 / 5)"
    unfolding d_def using assms(3) by (intro mult_right_mono) simp_all
  then have hi: "d \<le> 1" by simp
  have "(0 - 1 / 2) * (4 / 5) \<le> d"
    unfolding d_def using assms(2) by (intro mult_right_mono) simp_all
  then have lo: "- 1 \<le> d" by simp
  have "5 \<le> \<bar>c + d\<bar>" using assms(1) hi lo by linarith
  then have "5 \<le> \<bar>c + (u - 0.5) * 0.8\<bar>" by (simp add: d_def)
  moreover have "(1 :: real) / 2 ^ 126 \<le> 5" by simp
  ultimately show "1 / 2 ^ 126 \<le> \<bar>c + (u - 0.5) * 0.8\<bar>" by linarith
qed

lemma jitter_orbit_nonzero:
  assumes "unit_draws r"
  shows "froundV (jitter (ioPosition a) 0.8 r m) \<noteq> zeroV"
proof -
  define t where "t = real a * IO_ORBIT_SPEED"
  have u: "0 \<le> r j \<and> r j < 1" for j using assms by (simp add: unit_draws_def)
  have io: "ioPosition a = Vector3 (Fin (12 * cos t)) (Fin 0) (Fin (12 * sin t))"
    by (simp add: ioPosition_def IO_ORBIT_RADIUS_def t_def)
  consider "1 / 2 \<le> \<bar>cos t\<bar>" | "1 / 2 \<le> \<bar>sin t\<bar>" using cos_or_sin_half [of t] by blast
  then show ?thesis
  proof cases
    case 1
    then have "6 \<le> \<bar>12 * cos t\<bar>" by (simp add: abs_mult)
    then have "float32 (12 * cos t + (r m - 0.5) * 0.8) \<noteq> Fin 0"
      using u [of m] by (intro float32_far_from_zero) simp_all
    then show ?thesis by (simp add: io jitter_def froundV_def zeroV_def)
  next
    case 2
    then have "6 \<le> \<bar>12 * sin t\<bar>" by (simp add: abs_mult)
    then have "float32 (12 * sin t + (r (m + 2) - 0.5) * 0.8) \<noteq> Fin 0"
      using u [of "m + 2"] by (intro float32_far_from_zero) simp_all
    then show ?thesis by (simp add: io jitter_def froundV_def zeroV_def)
  qed
qed

text \<open>
  Claim C8 as stated fails.  A slot at the origin is at distance \<open>0 < MIN_DISTANCE\<close>, so
  the distance guard moves it next to Io.  In the first frame Io is at
  \<open>ioPosition 0 = (12, 0, 0)\<close>; with draws 0.5, slot 0 of the initial pool, which the
  emitter has not written, has position and velocity zero before the pass and a position
  other than the origin after it.  A pass over \<open>MAX_PARTICLES\<close> slots and a pass over
  \<open>activeParticles = 0\<close> slots of the initial pool leave different positions in slot 0.
\<close>

theorem idle_slot_counterexample:
  "positions initial_pool ! 0 = zeroV \<and> velocities initial_pool ! 0 = zeroV
   \<and> activeParticles initial_pool = 0
   \<and> positions (fst (integrate (ioPosition 0) (Fin 0) (\<lambda>_. 0.5) MAX_PARTICLES (initial_pool, 0))) ! 0
     \<noteq> positions initial_pool ! 0
   \<and> positions (fst (integrate (ioPosition 0) (Fin 0) (\<lambda>_. 0.5) MAX_PARTICLES (initial_pool, 0))) ! 0
     \<noteq> positions (fst (integrate (ioPosition 0) (Fin 0) (\<lambda>_. 0.5)
          (activeParticles initial_pool) (initial_pool, 0))) ! 0"
proof -
  define io where "io = ioPosition 0"
  define r :: rng where "r = (\<lambda>_. 0.5)"
  have ud: "unit_draws r" by (simp add: unit_draws_def r_def)
  have j: "froundV (jitter io 0.8 r m) \<noteq> zeroV" for m
    unfolding io_def using ud by (rule jitter_orbit_nonzero)
  have wf: "wf_pool initial_pool"
    by (simp add: wf_pool_def initial_pool_def)
  have i0: "0 < MAX_PARTICLES" by (simp add: MAX_PARTICLES_def)
  have p0: "positions initial_pool ! 0 = zeroV"
    and v0: "velocities initial_pool ! 0 = zeroV"
    and a0: "activeParticles initial_pool = 0"
    by (simp_all add: initial_pool_def MAX_PARTICLES_def)
  obtain m where "(positions (fst (integrate io (Fin 0) r MAX_PARTICLES (initial_pool, 0))) ! 0,
      velocities (fst (integrate io (Fin 0) r MAX_PARTICLES (initial_pool, 0))) ! 0,
      colors (fst (integrate io (Fin 0) r MAX_PARTICLES (initial_pool, 0))) ! 0)
    = (if 0 < MAX_PARTICLES
       then storedSlot (fst (updateParticle io (Fin 0) r m
         (positions initial_pool ! 0, velocities initial_pool ! 0, colors initial_pool ! 0)))
         (positions initial_pool ! 0, velocities initial_pool ! 0, colors initial_pool ! 0)
       else (positions initial_pool ! 0, velocities initial_pool ! 0, colors initial_pool ! 0))"
    using integrate_nth [OF wf i0, of io "Fin 0" r MAX_PARTICLES 0] by blast
  then have "positions (fst (integrate io (Fin 0) r MAX_PARTICLES (initial_pool, 0))) ! 0
      = froundV (jitter io 0.8 r m)"
    using i0 by (simp add: p0 updateParticle_origin storedSlot_def)
  with j have full: "positions (fst (integrate io (Fin 0) r MAX_PARTICLES (initial_pool, 0))) ! 0 \<noteq> zeroV"
    by simp
  have none: "positions (fst (integrate io (Fin 0) r 0 (initial_pool, 0))) ! 0 = zeroV"
    by (simp add: integrate_def p0)
  from full none p0 v0 a0 show ?thesis
    unfolding io_def r_def by simp
qed

text \<open>
  Claim C8, amended: a slot at the origin is not a fixed point of the integrator pass.
  With Io on its orbit and draws in \<open>[0, 1)\<close>, the loop body moves the slot to a jittered
  position near Io (three draws), with velocity zero and no colour stored, whatever its
  velocity was.  After a pass over the whole pool the slot holds that position as
  stored, which is not the origin, so its position has changed; a pass that stops at or
  before the slot leaves it at the origin; hence the two passes leave different
  position buffers.
\<close>

theorem idle_slot_is_not_a_fixed_point:
  assumes "wf_pool p" and "i < MAX_PARTICLES" and "positions p ! i = zeroV"
    and "unit_draws r" and "MAX_PARTICLES \<le> n" and "n' \<le> i"
  shows "updateParticle (ioPosition a) rot r k' (positions p ! i, velocities p ! i, colors p ! i)
      = ((jitter (ioPosition a) 0.8 r k', zeroV, None), k' + 3)
    \<and> (\<exists>m. positions (fst (integrate (ioPosition a) rot r n (p, k))) ! i
            = froundV (jitter (ioPosition a) 0.8 r m))
    \<and> positions (fst (integrate (ioPosition a) rot r n (p, k))) ! i \<noteq> positions p ! i
    \<and> velocities (fst (integrate (ioPosition a) rot r n (p, k))) ! i = zeroV
    \<and> colors (fst (integrate (ioPosition a) rot r n (p, k))) ! i = colors p ! i
    \<and> positions (fst (integrate (ioPosition a) rot r n' (p, k))) ! i = positions p ! i
    \<and> velocities (fst (integrate (ioPosition a) rot r n' (p, k))) ! i = velocities p ! i
    \<and> colors (fst (integrate (ioPosition a) rot r n' (p, k))) ! i = colors p ! i
    \<and> positions (fst (integrate (ioPosition a) rot r n (p, k)))
        \<noteq> positions (fst (integrate (ioPosition a) rot r n' (p, k)))"
proof -
  define io where "io = ioPosition a"
  have u: "updateParticle io rot r m (positions p ! i, velocities p ! i, colors p ! i)
      = ((jitter io 0.8 r m, zeroV, None), m + 3)" for m
    unfolding assms(3) by (rule updateParticle_origin)
  have "i < n" using assms(2,5) by simp
  then obtain m where "(positions (fst (integrate io rot r n (p, k))) ! i,
         velocities (fst (integrate io rot r n (p, k))) ! i,
         colors (fst (integrate io rot r n (p, k))) ! i) =
     storedSlot (fst (updateParticle io rot r m (positions p ! i, velocities p ! i, colors p ! i)))
       (positions p ! i, velocities p ! i, colors p ! i)"
    using integrate_nth [OF assms(1,2), of io rot r n k] by auto
  then have fp: "positions (fst (integrate io rot r n (p, k))) ! i = froundV (jitter io 0.8 r m)"
    and fv: "velocities (fst (integrate io rot r n (p, k))) ! i = zeroV"
    and fc: "colors (fst (integrate io rot r n (p, k))) ! i = colors p ! i"
    by (simp_all add: u storedSlot_def)
  have nz: "froundV (jitter io 0.8 r m) \<noteq> zeroV"
    unfolding io_def using assms(4) by (rule jitter_orbit_nonzero)
  have "\<not> i < n'" using assms(6) by simp
  then have "(positions (fst (integrate io rot r n' (p, k))) ! i,
         velocities (fst (integrate io rot r n' (p, k))) ! i,
         colors (fst (integrate io rot r n' (p, k))) ! i) =
     (positions p ! i, velocities p ! i, colors p ! i)"
    using integrate_nth [OF assms(1,2), of io rot r n' k] by auto
  then have sp: "positions (fst (integrate io rot r n' (p, k))) ! i = positions p ! i"
    and sv: "velocities (fst (integrate io rot r n' (p, k))) ! i = velocities p ! i"
    and sc: "colors (fst (integrate io rot r n' (p, k))) ! i = colors p ! i"
    by simp_all
  have changed: "positions (fst (integrate io rot r n (p, k))) ! i \<noteq> positions p ! i"
    using fp nz assms(3) by simp
  then have "positions (fst (integrate io rot r n (p, k))) ! i
      \<noteq> positions (fst (integrate io rot r n' (p, k))) ! i"
    using sp by simp
  then have differ: "positions (fst (integrate io rot r n (p, k)))
      \<noteq> positions (fst (integrate io rot r n' (p, k)))"
    by auto
  have ex: "\<exists>m. positions (fst (integrate io rot r n (p, k))) ! i = froundV (jitter io 0.8 r m)"
    using fp by blast
  from u [of k'] ex changed fv fc sp sv sc differ show ?thesis
    unfolding io_def by blast
qed

theorem idle_slot_is_not_a_fixed_point_witness:
  "wf_pool initial_pool \<and> 0 < MAX_PARTICLES \<and> positions initial_pool ! 0 = zeroV
   \<and> unit_draws (\<lambda>_. 0) \<and> MAX_PARTICLES \<le> MAX_PARTICLES \<and> (0 :: nat) \<le> 0
   \<and> positions (fst (integrate (ioPosition 0) (Fin 0) (\<lambda>_. 0) MAX_PARTICLES (initial_pool, 0))) ! 0
      \<noteq> zeroV
   \<and> velocities (fst (integrate (ioPosition 0) (Fin 0) (\<lambda>_. 0) MAX_PARTICLES (initial_pool, 0))) ! 0
      = zeroV
   \<and> positions (fst (integrate (ioPosition 0) (Fin 0) (\<lambda>_. 0) MAX_PARTICLES (initial_pool, 0)))
      \<noteq> positions (fst (integrate (ioPosition 0) (Fin 0) (\<lambda>_. 0) 0 (initial_pool, 0)))"
proof -
  have h: "wf_pool initial_pool" "0 < MAX_PARTICLES" "positions initial_pool ! 0 = zeroV"
    "unit_draws (\<lambda>_. 0)"
    by (simp_all add: wf_pool_def initial_pool_def MAX_PARTICLES_def unit_draws_def)
  show ?thesis
    using h idle_slot_is_not_a_fixed_point [where p = initial_pool and i = 0 and a = 0
      and rot = "Fin 0" and r = "\<lambda>_. 0" and k = 0 and k' = 0 and n = MAX_PARTICLES and n' = 0,
      OF h order_refl order_refl]
    by simp
qed

section \<open>Colours\<close>

lemma setAt_list_all:
  "list_all P xs \<Longrightarrow> P (froundV v) \<Longrightarrow> list_all P (setAt xs i v)"
  using set_update_subset_insert [of xs "nat i" "froundV v"]
  by (auto simp add: setAt_def list_all_iff)

lemma spawnParticle_colors:
  assumes "list_all color_ok (colors p)" and "color_ok colour"
  shows "list_all color_ok (colors (fst (spawnParticle local io spread speed0 speedRange colour r (p, k))))"
  using assms
  by (simp add: spawnParticle_def chooseSlot_def Let_def setAt_list_all froundV_color_ok)

lemma eruptionAttempt_colors:
  assumes "list_all color_ok (colors (fst pk))"
  shows "list_all color_ok (colors (fst (eruptionAttempt local io r pk)))"
proof (cases pk)
  case (Pair p k)
  with assms show ?thesis
    by (simp add: eruptionAttempt_def spawnParticle_colors color_ok_def)
qed

lemma eruption_loop_colors:
  "list_all color_ok (colors (fst pk)) \<Longrightarrow>
   list_all color_ok (colors (fst ((eruptionAttempt local io r ^^ n) pk)))"
  by (induction n) (simp_all add: eruptionAttempt_colors)

lemma emit_colors:
  "list_all color_ok (colors p) \<Longrightarrow> list_all color_ok (colors (fst (emit io r (p, e))))"
  by (simp add: emit_def Let_def eruption_loop_colors spawnParticle_colors color_ok_def)

text \<open>A frame keeps every colour in range when the position of Io is finite.\<close>

lemma tick_colors:
  assumes "wf_pool p" and "finiteV io" and "list_all color_ok (colors p)"
  shows "list_all color_ok (colors (fst (tick io rot r (p, e))))"
proof -
  let ?q = "fst (tick io rot r (p, e))" and ?p1 = "fst (emit io r (p, e))"
  have wfq: "wf_pool ?q" using assms(1) by (rule tick_wf)
  have wf1: "wf_pool ?p1" using assms(1) by (rule emit_wf)
  have c1: "list_all color_ok (colors ?p1)" using assms(3) by (rule emit_colors)
  have "color_ok (colors ?q ! j)" if j: "j < MAX_PARTICLES" for j
  proof -
    obtain k' where eq: "storedSlot (fst (updateParticle io rot r k' (slotAt ?p1 j))) (slotAt ?p1 j) =
        (positions ?q ! j, velocities ?q ! j, colors ?q ! j)"
      using tick_slot [OF assms(1) j] by blast
    have "color_ok (snd (snd (slotAt ?p1 j)))"
      using c1 wf1 j by (simp add: slotAt_nth list_all_length wf_pool_def)
    then show ?thesis
      using updateParticle_color_ok [OF assms(2), of "slotAt ?p1 j" rot r k']
      by (simp add: eq)
  qed
  then show ?thesis
    using wfq by (simp add: list_all_length wf_pool_def)
qed

lemma animate_invariant:
  assumes "wf_pool (psys s)" and "list_all color_ok (colors (psys s))"
  shows "wf_pool (psys (animate r s)) \<and> list_all color_ok (colors (psys (animate r s)))"
  using assms by (simp add: animate_def Let_def tick_wf tick_colors)

lemma run_invariant:
  assumes "wf_pool (psys s)" and "list_all color_ok (colors (psys s))"
  shows "wf_pool (psys (run rs s)) \<and> list_all color_ok (colors (psys (run rs s)))"
  using assms
proof (induction rs arbitrary: s)
  case Nil
  then show ?case by (simp add: run_Nil)
next
  case (Cons r rs)
  then show ?case by (simp add: run_Cons animate_invariant)
qed

text \<open>
  Claim C9.  After any number of frames from the initial state, whatever is drawn,
  each channel of the colour of every slot is a number between 0 and 1.
\<close>

theorem colors_in_unit_interval:
  assumes "i < MAX_PARTICLES"
  shows "color_ok (colors (psys (run rs initial_sim)) ! i)"
proof -
  have "wf_pool (psys initial_sim)"
    by (simp add: initial_sim_def initial_pool_def wf_pool_def)
  moreover have "color_ok (froundV (Vector3 (Fin 1.0) (Fin 0.5) (Fin 0.2)))"
    by (rule froundV_color_ok) (simp add: color_ok_def)
  then have "list_all color_ok (colors (psys initial_sim))"
    by (simp add: initial_sim_def initial_pool_def list_all_length)
  ultimately have "wf_pool (psys (run rs initial_sim))
    \<and> list_all color_ok (colors (psys (run rs initial_sim)))"
    by (rule run_invariant)
  with assms show ?thesis
    by (simp add: list_all_length wf_pool_def)
qed

theorem colors_in_unit_interval_witness:
  "0 < MAX_PARTICLES \<and> color_ok (colors (psys (run [\<lambda>_. 0, \<lambda>_. 0] initial_sim)) ! 0)"
  using colors_in_unit_interval [of 0 "[\<lambda>_. 0, \<lambda>_. 0]"]
  by (simp add: MAX_PARTICLES_def)

section \<open>The magnetic field in closed form\<close>







lemma toVector3_inject:
  "toVector3 v = toVector3 w \<longleftrightarrow> v = w"
  by (cases v; cases w) (simp add: toVector3_def)
























section \<open>Symmetries of the magnetic field\<close>









end
